theory Spec2Isabelle
  imports Complex_Main
begin

section \<open>Python values\<close>

text \<open>
  The sidebar module of chime\_dash (\<^verbatim>\<open>chime_dash/app/pages/sidebar.py\<close>) receives the
  values of the form widgets as decoded JSON and works on them with Python's dynamic
  operations: truthiness, \<^verbatim>\<open>==\<close>, \<^verbatim>\<open>/\<close>, \<^verbatim>\<open>str\<close>. The values are modelled by one datatype.
  \<open>PFloat x\<close> is a Python \<^verbatim>\<open>float\<close> that is finite: \<open>x\<close> is the exact value of the double.
  Infinities and NaN, which JSON proper cannot carry, and the sign of zero are left out.
  Strings are lists of 8-bit characters. \<open>PDate y m d\<close> is a \<^verbatim>\<open>datetime.date\<close>.
\<close>

datatype pyval =
    PNone
  | PBool bool
  | PInt int
  | PFloat rat
  | PStr string
  | PList "pyval list"
  | PDate nat nat nat

text \<open>
  Exceptions are values. A \<^verbatim>\<open>ValueError\<close> of \<^verbatim>\<open>datetime.strptime\<close> carries what its message
  embeds: the whole data string when the format does not match, the unread rest when data
  remains, nothing when the numbers are no calendar date. \<open>Raised\<close> stands for an exception
  of a collaborator outside the module.
\<close>

datatype value_error =
    NoMatch string
  | UnconvertedData string
  | DateOutOfRange

datatype py_error =
    KeyError string
  | TypeError
  | ValueError value_error
  | OverflowError
  | Raised string

definition bind_err :: "'e + 'a \<Rightarrow> ('a \<Rightarrow> 'e + 'b) \<Rightarrow> 'e + 'b" where
  "bind_err m f = (case m of Inl e \<Rightarrow> Inl e | Inr x \<Rightarrow> f x)"

subsection \<open>Truthiness, equality, true division\<close>

fun py_truthy :: "pyval \<Rightarrow> bool" where
  "py_truthy PNone = False"
| "py_truthy (PBool b) = b"
| "py_truthy (PInt i) = (i \<noteq> 0)"
| "py_truthy (PFloat x) = (x \<noteq> 0)"
| "py_truthy (PStr s) = (s \<noteq> [])"
| "py_truthy (PList xs) = (xs \<noteq> [])"
| "py_truthy (PDate y m d) = True"

text \<open>The numeric value of a \<^verbatim>\<open>bool\<close>, \<^verbatim>\<open>int\<close> or \<^verbatim>\<open>float\<close>; \<^verbatim>\<open>bool\<close> is a subclass of \<^verbatim>\<open>int\<close>.\<close>

fun py_num :: "pyval \<Rightarrow> rat option" where
  "py_num (PBool b) = Some (if b then 1 else 0)"
| "py_num (PInt i) = Some (of_int i)"
| "py_num (PFloat x) = Some x"
| "py_num v = None"

text \<open>
  Python's \<^verbatim>\<open>==\<close>: numbers compare by value across \<^verbatim>\<open>bool\<close>, \<^verbatim>\<open>int\<close> and \<^verbatim>\<open>float\<close>
  (\<^verbatim>\<open>True == 1 == 1.0\<close>), lists compare by length and elementwise, values of unrelated
  types are unequal.
\<close>

fun py_eq :: "pyval \<Rightarrow> pyval \<Rightarrow> bool"
and py_eq_list :: "pyval list \<Rightarrow> pyval list \<Rightarrow> bool" where
  "py_eq PNone PNone = True"
| "py_eq (PStr s) (PStr t) = (s = t)"
| "py_eq (PDate y m d) (PDate y' m' d') = (y = y' \<and> m = m' \<and> d = d')"
| "py_eq (PList xs) (PList ys) = py_eq_list xs ys"
| "py_eq v w = (case (py_num v, py_num w) of (Some x, Some y) \<Rightarrow> x = y | _ \<Rightarrow> False)"
| "py_eq_list [] [] = True"
| "py_eq_list (x # xs) (y # ys) = (py_eq x y \<and> py_eq_list xs ys)"
| "py_eq_list xs ys = False"

text \<open>
  Rounding to the nearest double, ties to even, as IEEE 754 division and CPython's division
  of two \<^verbatim>\<open>int\<close>s both do: \<open>floor_log2 x\<close> is the exponent \<open>e\<close> with \<open>2 ^ e \<le> x < 2 ^ (e + 1)\<close>
  for a positive \<open>x\<close>, the result is a multiple of \<open>2 ^ (e - 52)\<close>, or of \<open>2 ^ - 1074\<close> in the
  subnormal range, and \<open>None\<close> when it would reach \<open>2 ^ 1024\<close> (its exponent would be 1024).
\<close>

function bit_length :: "int \<Rightarrow> int" where
  "bit_length n = (if n \<le> 0 then 0 else 1 + bit_length (n div 2))"
  by pat_completeness auto
termination
  by (relation "measure nat") auto

definition floor_log2 :: "rat \<Rightarrow> int" where
  "floor_log2 x =
     (if 1 \<le> x then bit_length \<lfloor>x\<rfloor> - 1 else - bit_length (\<lceil>1 / x\<rceil> - 1))"

definition pow2 :: "int \<Rightarrow> rat" where
  "pow2 k = (if 0 \<le> k then 2 ^ nat k else 1 / 2 ^ nat (- k))"

definition round_half_even :: "rat \<Rightarrow> int" where
  "round_half_even y =
     (let f = \<lfloor>y\<rfloor>; d = y - of_int f
      in if d < 1 / 2 then f else if 1 / 2 < d then f + 1 else if even f then f else f + 1)"

definition round_to_double :: "rat \<Rightarrow> rat option" where
  "round_to_double x =
     (if x = 0 then Some 0
      else
        let q = max (floor_log2 \<bar>x\<bar> - 52) (- 1074);
            r = of_int (round_half_even (\<bar>x\<bar> / pow2 q)) * pow2 q
        in if 1024 \<le> floor_log2 r then None else Some (if x < 0 then - r else r))"

text \<open>
  \<^verbatim>\<open>v / 100\<close>, the only division of the module. A \<^verbatim>\<open>bool\<close> or an \<^verbatim>\<open>int\<close> over the \<^verbatim>\<open>int\<close> 100
  is the correctly rounded quotient, and \<^verbatim>\<open>OverflowError\<close> when the quotient is too large
  for a float; a \<^verbatim>\<open>float\<close> is divided by 100.0 and the quotient is rounded; any other
  value raises \<^verbatim>\<open>TypeError\<close>.
\<close>

definition py_truediv_100 :: "pyval \<Rightarrow> py_error + pyval" where
  "py_truediv_100 v =
     (case py_num v of
        None \<Rightarrow> Inl TypeError
      | Some x \<Rightarrow>
          (case round_to_double (x / 100) of
             None \<Rightarrow> Inl OverflowError
           | Some q \<Rightarrow> Inr (PFloat q)))"

subsection \<open>Dictionaries\<close>

text \<open>
  A \<^verbatim>\<open>dict\<close> keeps its keys in insertion order, and assigning to a key that is present
  keeps the key's place: an association list with distinct keys.
\<close>

type_synonym 'v pydict = "(string \<times> 'v) list"

fun dict_get :: "'v pydict \<Rightarrow> string \<Rightarrow> py_error + 'v" where
  "dict_get [] key = Inl (KeyError key)"
| "dict_get ((k, v) # d) key = (if k = key then Inr v else dict_get d key)"

fun dict_set :: "'v pydict \<Rightarrow> string \<Rightarrow> 'v \<Rightarrow> 'v pydict" where
  "dict_set [] key val = [(key, val)]"
| "dict_set ((k, v) # d) key val = (if k = key then (k, val) # d else (k, v) # dict_set d key val)"

text \<open>\<^verbatim>\<open>dict(pairs)\<close> stores the pairs one after the other.\<close>

definition dict_of :: "(string \<times> 'v) list \<Rightarrow> 'v pydict" where
  "dict_of ps = foldl (\<lambda>d (k, v). dict_set d k v) [] ps"

section \<open>The table of inputs\<close>

text \<open>
  The values of the descriptors. \<open>AToday\<close> is \<^verbatim>\<open>date.today()\<close>, evaluated when the module
  is loaded; \<open>ADatetime y m d\<close> is \<^verbatim>\<open>datetime(y, m, d)\<close>.
\<close>

datatype attr =
    ANone
  | ABool bool
  | AInt int
  | AFloat rat
  | AStr string
  | ADatetime nat nat nat
  | AToday

definition FLOAT_INPUT_MIN :: attr where
  "FLOAT_INPUT_MIN = AFloat (1 / 1000)"

definition FLOAT_INPUT_STEP :: attr where
  "FLOAT_INPUT_STEP = AStr ''any''"

text \<open>\<^verbatim>\<open>_INPUTS\<close>, in the order of the source.\<close>

definition INPUTS :: "attr pydict pydict" where
  "INPUTS = [
     (''hospital_parameters'', [(''type'', AStr ''header''), (''size'', AStr ''h3'')]),
     (''population'', [(''type'', AStr ''number''), (''min'', AInt 1), (''step'', AInt 1)]),
     (''market_share'', [(''type'', AStr ''number''), (''min'', FLOAT_INPUT_MIN),
        (''step'', FLOAT_INPUT_STEP), (''max'', AFloat 100), (''percent'', ABool True)]),
     (''current_hospitalized'', [(''type'', AStr ''number''), (''min'', AInt 0), (''step'', AInt 1)]),
     (''spread_parameters'', [(''type'', AStr ''header''), (''size'', AStr ''h4'')]),
     (''date_first_hospitalized'', [(''type'', AStr ''date''),
        (''min_date_allowed'', ADatetime 2019 10 1), (''max_date_allowed'', ADatetime 2021 12 31)]),
     (''doubling_time'', [(''type'', AStr ''number''), (''min'', FLOAT_INPUT_MIN),
        (''step'', FLOAT_INPUT_STEP)]),
     (''relative_contact_rate'', [(''type'', AStr ''number''), (''min'', AFloat 0),
        (''step'', FLOAT_INPUT_STEP), (''max'', AFloat 100), (''percent'', ABool True)]),
     (''severity_parameters'', [(''type'', AStr ''header''), (''size'', AStr ''h4'')]),
     (''hospitalized_rate'', [(''type'', AStr ''number''), (''min'', AFloat 0),
        (''step'', FLOAT_INPUT_STEP), (''max'', AFloat 100), (''percent'', ABool True)]),
     (''icu_rate'', [(''type'', AStr ''number''), (''min'', AFloat 0),
        (''step'', FLOAT_INPUT_STEP), (''max'', AFloat 100), (''percent'', ABool True)]),
     (''ventilated_rate'', [(''type'', AStr ''number''), (''min'', AFloat 0),
        (''step'', FLOAT_INPUT_STEP), (''max'', AFloat 100), (''percent'', ABool True)]),
     (''infectious_days'', [(''type'', AStr ''number''), (''min'', AInt 0), (''step'', AInt 1)]),
     (''hospitalized_los'', [(''type'', AStr ''number''), (''min'', AInt 0), (''step'', AInt 1)]),
     (''icu_los'', [(''type'', AStr ''number''), (''min'', AInt 0), (''step'', AInt 1)]),
     (''ventilated_los'', [(''type'', AStr ''number''), (''min'', AInt 0), (''step'', AInt 1)]),
     (''display_parameters'', [(''type'', AStr ''header''), (''size'', AStr ''h4'')]),
     (''n_days'', [(''type'', AStr ''number''), (''min'', AInt 30), (''step'', AInt 1)]),
     (''current_date'', [(''type'', AStr ''date''),
        (''min_date_allowed'', ADatetime 2019 10 1), (''max_date_allowed'', ADatetime 2021 12 31),
        (''initial_visible_month'', AToday), (''date'', AToday)]),
     (''max_y_axis_value'', [(''type'', AStr ''number''), (''min'', AInt 10), (''step'', AInt 10),
        (''value'', ANone)]),
     (''show_tables'', [(''type'', AStr ''switch''), (''value'', ABool False)]),
     (''show_tool_details'', [(''type'', AStr ''switch''), (''value'', ABool False)]),
     (''download_as_pdf_link'', [(''type'', AStr ''link'')])
   ]"

text \<open>\<^verbatim>\<open>_INPUTS[key]["type"]\<close>.\<close>

definition input_type :: "string \<Rightarrow> py_error + attr" where
  "input_type key = bind_err (dict_get INPUTS key) (\<lambda>descr. dict_get descr ''type'')"

text \<open>
  \<^verbatim>\<open>Sidebar.get_ordered_input_keys\<close>: the comprehension over the keys of the table, keeping
  a key unless its type is in \<^verbatim>\<open>("header", "link")\<close>.
\<close>

fun ordered_keys_of :: "string list \<Rightarrow> py_error + string list" where
  "ordered_keys_of [] = Inr []"
| "ordered_keys_of (key # keys) =
     (case input_type key of
        Inl e \<Rightarrow> Inl e
      | Inr t \<Rightarrow>
          (case ordered_keys_of keys of
             Inl e \<Rightarrow> Inl e
           | Inr ks \<Rightarrow> Inr (if t \<notin> set [AStr ''header'', AStr ''link''] then key # ks else ks)))"

definition get_ordered_input_keys :: "py_error + string list" where
  "get_ordered_input_keys = ordered_keys_of (map fst INPUTS)"

section \<open>Dates\<close>

text \<open>
  \<^verbatim>\<open>datetime.strptime(value, "%Y-%m-%d").date()\<close> of the standard library. The format is
  compiled to the regular expression
  \<^verbatim>\<open>(?P<Y>\d\d\d\d)-(?P<m>1[0-2]|0[1-9]|[1-9])-(?P<d>3[0-1]|[1-2]\d|0[1-9]|[1-9]| [1-9])\<close>,
  matched at the start of the string; the alternatives are tried in order. Text left after
  the match, and numbers that are no date of the calendar, raise \<^verbatim>\<open>ValueError\<close>.
\<close>

definition digit_of :: "char \<Rightarrow> nat option" where
  "digit_of c = (let n = (of_char c :: nat) in if 48 \<le> n \<and> n \<le> 57 then Some (n - 48) else None)"

text \<open>One digit that satisfies \<open>P\<close>; two digits that satisfy \<open>P\<close> and \<open>Q\<close>.\<close>

fun one_digit :: "(nat \<Rightarrow> bool) \<Rightarrow> string \<Rightarrow> (nat \<times> string) option" where
  "one_digit P [] = None"
| "one_digit P (a # s) =
     (case digit_of a of Some x \<Rightarrow> if P x then Some (x, s) else None | None \<Rightarrow> None)"

fun two_digits :: "(nat \<Rightarrow> bool) \<Rightarrow> (nat \<Rightarrow> bool) \<Rightarrow> string \<Rightarrow> (nat \<times> string) option" where
  "two_digits P Q (a # b # s) =
     (case (digit_of a, digit_of b) of
        (Some x, Some y) \<Rightarrow> if P x \<and> Q y then Some (10 * x + y, s) else None
      | _ \<Rightarrow> None)"
| "two_digits P Q s = None"

definition or_else :: "'a option \<Rightarrow> 'a option \<Rightarrow> 'a option" where
  "or_else a b = (case a of Some x \<Rightarrow> Some x | None \<Rightarrow> b)"

text \<open>\<^verbatim>\<open>\d\d\d\d\<close>\<close>

fun re_Y :: "string \<Rightarrow> (nat \<times> string) option" where
  "re_Y (a # b # c # d # s) =
     (case (digit_of a, digit_of b, digit_of c, digit_of d) of
        (Some w, Some x, Some y, Some z) \<Rightarrow> Some (1000 * w + 100 * x + 10 * y + z, s)
      | _ \<Rightarrow> None)"
| "re_Y s = None"

text \<open>\<^verbatim>\<open>1[0-2]|0[1-9]|[1-9]\<close>\<close>

definition re_m :: "string \<Rightarrow> (nat \<times> string) option" where
  "re_m s =
     or_else (two_digits (\<lambda>x. x = 1) (\<lambda>y. y \<le> 2) s)
    (or_else (two_digits (\<lambda>x. x = 0) (\<lambda>y. 1 \<le> y) s)
             (one_digit (\<lambda>x. 1 \<le> x) s))"

text \<open>\<^verbatim>\<open>3[0-1]|[1-2]\d|0[1-9]|[1-9]| [1-9]\<close>\<close>

definition re_d :: "string \<Rightarrow> (nat \<times> string) option" where
  "re_d s =
     or_else (two_digits (\<lambda>x. x = 3) (\<lambda>y. y \<le> 1) s)
    (or_else (two_digits (\<lambda>x. 1 \<le> x \<and> x \<le> 2) (\<lambda>y. True) s)
    (or_else (two_digits (\<lambda>x. x = 0) (\<lambda>y. 1 \<le> y) s)
    (or_else (one_digit (\<lambda>x. 1 \<le> x) s)
             (case s of c # t \<Rightarrow> if c = CHR '' '' then one_digit (\<lambda>x. 1 \<le> x) t else None
                       | [] \<Rightarrow> None))))"

fun dash :: "string \<Rightarrow> string option" where
  "dash [] = None"
| "dash (c # s) = (if c = CHR ''-'' then Some s else None)"

text \<open>The match of the whole expression: year, month, day and the text left over.\<close>

definition match_ymd :: "string \<Rightarrow> (nat \<times> nat \<times> nat \<times> string) option" where
  "match_ymd s =
     (case re_Y s of None \<Rightarrow> None | Some (y, s1) \<Rightarrow>
      (case dash s1 of None \<Rightarrow> None | Some s2 \<Rightarrow>
       (case re_m s2 of None \<Rightarrow> None | Some (m, s3) \<Rightarrow>
        (case dash s3 of None \<Rightarrow> None | Some s4 \<Rightarrow>
         (case re_d s4 of None \<Rightarrow> None | Some (d, s5) \<Rightarrow> Some (y, m, d, s5))))))"

definition is_leap :: "nat \<Rightarrow> bool" where
  "is_leap y = (y mod 4 = 0 \<and> (y mod 100 \<noteq> 0 \<or> y mod 400 = 0))"

definition days_in_month :: "nat \<Rightarrow> nat \<Rightarrow> nat" where
  "days_in_month y m =
     (if m = 2 then (if is_leap y then 29 else 28)
      else if m \<in> set [4, 6, 9, 11] then 30 else 31)"

text \<open>The dates that \<^verbatim>\<open>datetime.date(y, m, d)\<close> accepts.\<close>

definition valid_date :: "nat \<Rightarrow> nat \<Rightarrow> nat \<Rightarrow> bool" where
  "valid_date y m d =
     (1 \<le> y \<and> y \<le> 9999 \<and> 1 \<le> m \<and> m \<le> 12 \<and> 1 \<le> d \<and> d \<le> days_in_month y m)"

definition strptime_date :: "pyval \<Rightarrow> py_error + pyval" where
  "strptime_date value =
     (case value of
        PStr s \<Rightarrow>
          (case match_ymd s of
             None \<Rightarrow> Inl (ValueError (NoMatch s))
           | Some (y, m, d, rest) \<Rightarrow>
               if rest \<noteq> [] then Inl (ValueError (UnconvertedData rest))
               else if valid_date y m d then Inr (PDate y m d)
               else Inl (ValueError DateOutOfRange))
      | _ \<Rightarrow> Inl TypeError)"

text \<open>\<^verbatim>\<open>date.isoformat\<close>, which is also \<^verbatim>\<open>str\<close> of a date: \<^verbatim>\<open>"%04d-%02d-%02d"\<close>.\<close>

definition digit_char :: "nat \<Rightarrow> char" where
  "digit_char n = char_of (48 + n mod 10)"

definition isoformat :: "nat \<Rightarrow> nat \<Rightarrow> nat \<Rightarrow> string" where
  "isoformat y m d =
     [digit_char (y div 1000), digit_char (y div 100), digit_char (y div 10), digit_char y,
      CHR ''-'', digit_char (m div 10), digit_char m,
      CHR ''-'', digit_char (d div 10), digit_char d]"

section \<open>Coercion of the form values\<close>

text \<open>
  \<^verbatim>\<open>Sidebar.get_formated_values\<close>. The loop runs over all keys of the table and updates
  \<^verbatim>\<open>result\<close> in place; \<^verbatim>\<open>result[key]\<close> raises \<^verbatim>\<open>KeyError\<close> for a key that \<^verbatim>\<open>zip\<close> left out.
  \<open>coerce_switch\<close> is the value that lines 132 to 134 compute for a switch, \<open>coerce_date\<close>
  the conditional expression of lines 138 to 140.
\<close>

definition coerce_switch :: "pyval \<Rightarrow> pyval" where
  "coerce_switch v = PBool (if py_eq v (PList [PBool True]) then True else False)"

definition coerce_date :: "pyval \<Rightarrow> py_error + pyval" where
  "coerce_date value = (if py_truthy value then strptime_date value else Inr value)"

fun format_loop :: "string list \<Rightarrow> pyval pydict \<Rightarrow> py_error + pyval pydict" where
  "format_loop [] result = Inr result"
| "format_loop (key # keys) result =
     (case input_type key of
        Inl e \<Rightarrow> Inl e
      | Inr t \<Rightarrow>
          if t = AStr ''switch'' then
            (case dict_get result key of
               Inl e \<Rightarrow> Inl e
             | Inr v \<Rightarrow> format_loop keys (dict_set result key (coerce_switch v)))
          else if t = AStr ''date'' then
            (case dict_get result key of
               Inl e \<Rightarrow> Inl e
             | Inr value \<Rightarrow>
                 (case coerce_date value of
                    Inl e \<Rightarrow> Inl e
                  | Inr v \<Rightarrow> format_loop keys (dict_set result key v)))
          else format_loop keys result)"

definition get_formated_values :: "pyval list \<Rightarrow> py_error + pyval pydict" where
  "get_formated_values input_values =
     bind_err get_ordered_input_keys (\<lambda>keys.
       format_loop (map fst INPUTS) (dict_of (zip keys input_values)))"

section \<open>Assembly of the parameters\<close>

text \<open>
  Modelled from the spec: \<^verbatim>\<open>Disposition\<close> of \<^verbatim>\<open>penn_chime.parameters\<close>, which is not part of
  the module; the spec describes it as a pair of a rate and a length of stay.
\<close>

record disposition =
  rate :: pyval
  days :: pyval

text \<open>The keyword arguments of the call \<^verbatim>\<open>Parameters(...)\<close>.\<close>

record parameters_kwargs =
  population :: pyval
  current_hospitalized :: pyval
  date_first_hospitalized :: pyval
  doubling_time :: pyval
  hospitalized :: disposition
  icu :: disposition
  infectious_days :: pyval
  market_share :: pyval
  n_days :: pyval
  relative_contact_rate :: pyval
  ventilated :: disposition
  max_y_axis :: pyval

text \<open>\<^verbatim>\<open>d.get(key, default)\<close>\<close>

definition dict_get_default :: "'v pydict \<Rightarrow> string \<Rightarrow> 'v \<Rightarrow> 'v" where
  "dict_get_default d key dflt = (case dict_get d key of Inl e \<Rightarrow> dflt | Inr v \<Rightarrow> v)"

text \<open>
  Lines 150 to 169 of \<^verbatim>\<open>Sidebar.update_parameters\<close>: the choice between the doubling time and
  the date of the first hospitalisation, and the arguments of the constructor, evaluated in
  the order in which the source writes them.
\<close>

definition parameters_call :: "pyval pydict \<Rightarrow> py_error + parameters_kwargs" where
  "parameters_call inputs_dict =
     bind_err (dict_get inputs_dict ''doubling_time'') (\<lambda>c.
     bind_err (if py_truthy c then dict_get inputs_dict ''doubling_time'' else Inr PNone) (\<lambda>dt.
     bind_err (if \<not> py_truthy dt then dict_get inputs_dict ''date_first_hospitalized'' else Inr PNone) (\<lambda>dfh.
     bind_err (dict_get inputs_dict ''population'') (\<lambda>a_population.
     bind_err (dict_get inputs_dict ''current_hospitalized'') (\<lambda>a_current_hospitalized.
     bind_err (dict_get inputs_dict ''hospitalized_rate'') (\<lambda>hr.
     bind_err (py_truediv_100 hr) (\<lambda>hospitalized_rate.
     bind_err (dict_get inputs_dict ''hospitalized_los'') (\<lambda>hospitalized_los.
     bind_err (dict_get inputs_dict ''icu_rate'') (\<lambda>ir.
     bind_err (py_truediv_100 ir) (\<lambda>icu_rate.
     bind_err (dict_get inputs_dict ''icu_los'') (\<lambda>icu_los.
     bind_err (dict_get inputs_dict ''infectious_days'') (\<lambda>a_infectious_days.
     bind_err (dict_get inputs_dict ''market_share'') (\<lambda>ms.
     bind_err (py_truediv_100 ms) (\<lambda>a_market_share.
     bind_err (dict_get inputs_dict ''n_days'') (\<lambda>a_n_days.
     bind_err (dict_get inputs_dict ''relative_contact_rate'') (\<lambda>rc.
     bind_err (py_truediv_100 rc) (\<lambda>a_relative_contact_rate.
     bind_err (dict_get inputs_dict ''ventilated_rate'') (\<lambda>vr.
     bind_err (py_truediv_100 vr) (\<lambda>ventilated_rate.
     bind_err (dict_get inputs_dict ''ventilated_los'') (\<lambda>ventilated_los.
       Inr \<lparr> population = a_population,
             current_hospitalized = a_current_hospitalized,
             date_first_hospitalized = dfh,
             doubling_time = dt,
             hospitalized = \<lparr> rate = hospitalized_rate, days = hospitalized_los \<rparr>,
             icu = \<lparr> rate = icu_rate, days = icu_los \<rparr>,
             infectious_days = a_infectious_days,
             market_share = a_market_share,
             n_days = a_n_days,
             relative_contact_rate = a_relative_contact_rate,
             ventilated = \<lparr> rate = ventilated_rate, days = ventilated_los \<rparr>,
             max_y_axis = dict_get_default inputs_dict ''max_y_axis_value'' PNone \<rparr>
     ))))))))))))))))))))"

text \<open>
  \<^verbatim>\<open>Sidebar.update_parameters\<close>. The class \<^verbatim>\<open>Parameters\<close> of \<^verbatim>\<open>penn_chime.parameters\<close> and
  \<^verbatim>\<open>parameters_serializer\<close> of \<^verbatim>\<open>chime_dash.app.utils\<close> are not part of the module: the
  constructor and the serializer are arguments of the model, and either may raise.
\<close>

definition update_parameters ::
  "(parameters_kwargs \<Rightarrow> py_error + 'p) \<Rightarrow> ('p \<Rightarrow> py_error + 's) \<Rightarrow> pyval list \<Rightarrow> py_error + 's list" where
  "update_parameters Parameters parameters_serializer input_values =
     bind_err (get_formated_values input_values) (\<lambda>inputs_dict.
     bind_err (parameters_call inputs_dict) (\<lambda>kwargs.
     bind_err (Parameters kwargs) (\<lambda>pars.
     bind_err (parameters_serializer pars) (\<lambda>s. Inr [s]))))"

section \<open>The download link\<close>

text \<open>
  \<^verbatim>\<open>"{val}".format(val=val)\<close> is \<^verbatim>\<open>str(val)\<close> for the values at hand. The \<^verbatim>\<open>repr\<close> of a
  \<^verbatim>\<open>float\<close> (the shortest decimal that reads back) and of a \<^verbatim>\<open>str\<close> (quoting and escapes)
  belong to the interpreter; the model takes them as arguments.
\<close>

record reprs =
  float_repr :: "rat \<Rightarrow> string"
  str_repr :: "string \<Rightarrow> string"

fun dec_digits :: "nat \<Rightarrow> string" where
  "dec_digits n = (if n < 10 then [digit_char n] else dec_digits (n div 10) @ [digit_char n])"

definition str_int :: "int \<Rightarrow> string" where
  "str_int i = (if i < 0 then CHR ''-'' # dec_digits (nat (- i)) else dec_digits (nat i))"

fun py_repr :: "reprs \<Rightarrow> pyval \<Rightarrow> string"
and py_repr_items :: "reprs \<Rightarrow> pyval list \<Rightarrow> string" where
  "py_repr R PNone = ''None''"
| "py_repr R (PBool b) = (if b then ''True'' else ''False'')"
| "py_repr R (PInt i) = str_int i"
| "py_repr R (PFloat x) = float_repr R x"
| "py_repr R (PStr s) = str_repr R s"
| "py_repr R (PList xs) = ''['' @ py_repr_items R xs @ '']''"
| "py_repr R (PDate y m d) =
     ''datetime.date('' @ dec_digits y @ '', '' @ dec_digits m @ '', '' @ dec_digits d @ '')''"
| "py_repr_items R [] = []"
| "py_repr_items R [x] = py_repr R x"
| "py_repr_items R (x # y # ys) = py_repr R x @ '', '' @ py_repr_items R (y # ys)"

definition py_str :: "reprs \<Rightarrow> pyval \<Rightarrow> string" where
  "py_str R v = (case v of PStr s \<Rightarrow> s | PDate y m d \<Rightarrow> isoformat y m d | _ \<Rightarrow> py_repr R v)"

text \<open>\<^verbatim>\<open>sep.join(items)\<close>\<close>

fun join :: "string \<Rightarrow> string list \<Rightarrow> string" where
  "join sep [] = []"
| "join sep [x] = x"
| "join sep (x # y # ys) = x @ sep @ join sep (y # ys)"

text \<open>The list comprehension of \<^verbatim>\<open>Sidebar.get_download_as_pdf_link\<close>, over \<^verbatim>\<open>inputs_dict.items()\<close>.\<close>

fun query_items :: "reprs \<Rightarrow> pyval pydict \<Rightarrow> string list" where
  "query_items R [] = []"
| "query_items R ((key, val) # items) =
     (if \<not> key \<in> set [''model'', ''pars''] \<and> val \<noteq> PNone
      then (key @ ''='' @ py_str R val) # query_items R items
      else query_items R items)"

definition DOWNLOAD_AS_PDF_URL :: string where
  "DOWNLOAD_AS_PDF_URL = ''/download-as-pdf''"

text \<open>Lines 178 to 188: the url built from the class attribute and the coerced values.\<close>

definition download_url :: "string \<Rightarrow> reprs \<Rightarrow> pyval pydict \<Rightarrow> string" where
  "download_url cls_url R inputs_dict = cls_url @ ''?'' @ join ''&'' (query_items R inputs_dict)"

text \<open>
  \<^verbatim>\<open>Sidebar.get_download_as_pdf_link\<close>, a class method: \<open>cls_url\<close> is \<^verbatim>\<open>cls.DOWNLOAD_AS_PDF_URL\<close>,
  which is \<open>DOWNLOAD_AS_PDF_URL\<close> for \<^verbatim>\<open>Sidebar\<close> itself.
\<close>

definition get_download_as_pdf_link :: "string \<Rightarrow> reprs \<Rightarrow> pyval list \<Rightarrow> py_error + string list" where
  "get_download_as_pdf_link cls_url R input_values =
     bind_err (get_formated_values input_values) (\<lambda>inputs_dict.
       Inr [download_url cls_url R inputs_dict])"

section \<open>Reference values for the statements\<close>

text \<open>The keys of the table that are neither a header nor a link, written out.\<close>

definition interactive_keys :: "string list" where
  "interactive_keys =
     [''population'', ''market_share'', ''current_hospitalized'', ''date_first_hospitalized'',
      ''doubling_time'', ''relative_contact_rate'', ''hospitalized_rate'', ''icu_rate'',
      ''ventilated_rate'', ''infectious_days'', ''hospitalized_los'', ''icu_los'',
      ''ventilated_los'', ''n_days'', ''current_date'', ''max_y_axis_value'', ''show_tables'',
      ''show_tool_details'']"

text \<open>
  The dictionary that the coercion returns for at least 18 raw values, given the two coerced
  dates: the first 18 values under the interactive keys, with the dates and the switches
  replaced.
\<close>

definition coerced_dict :: "pyval list \<Rightarrow> pyval \<Rightarrow> pyval \<Rightarrow> pyval pydict" where
  "coerced_dict raw a b =
     zip interactive_keys
       ((take 18 raw)[3 := a, 14 := b, 16 := coerce_switch (raw ! 16), 17 := coerce_switch (raw ! 17)])"

text \<open>
  One submission of the form: a doubling time of 4.5 together with a date of first
  hospitalisation, a hospitalisation rate of 8.0 percent, no cap of the y axis, the first
  switch on and the second off.
\<close>

definition sample_values :: "pyval list" where
  "sample_values =
     [PInt 1000000, PFloat 15, PInt 4, PStr ''2020-03-01'', PFloat (9 / 2), PFloat 30,
      PFloat 8, PFloat (3 / 2), PFloat 1, PInt 14, PInt 7, PInt 9, PInt 10, PInt 60,
      PStr ''2021-03-15'', PNone, PList [PBool True], PList []]"

text \<open>
  What the coercion makes of \<open>sample_values\<close>, and the arguments that the constructor
  receives: the rates are the doubles 0.08, 0.015, 0.15, 0.3 and 0.01.
\<close>

definition sample_coerced :: "pyval pydict" where
  "sample_coerced =
     [(''population'', PInt 1000000), (''market_share'', PFloat 15),
      (''current_hospitalized'', PInt 4), (''date_first_hospitalized'', PDate 2020 3 1),
      (''doubling_time'', PFloat (9 / 2)), (''relative_contact_rate'', PFloat 30),
      (''hospitalized_rate'', PFloat 8), (''icu_rate'', PFloat (3 / 2)),
      (''ventilated_rate'', PFloat 1), (''infectious_days'', PInt 14),
      (''hospitalized_los'', PInt 7), (''icu_los'', PInt 9), (''ventilated_los'', PInt 10),
      (''n_days'', PInt 60), (''current_date'', PDate 2021 3 15),
      (''max_y_axis_value'', PNone), (''show_tables'', PBool True),
      (''show_tool_details'', PBool False)]"

definition sample_kwargs :: parameters_kwargs where
  "sample_kwargs =
     \<lparr> population = PInt 1000000,
       current_hospitalized = PInt 4,
       date_first_hospitalized = PNone,
       doubling_time = PFloat (9 / 2),
       hospitalized = \<lparr> rate = PFloat (5764607523034235 / 72057594037927936), days = PInt 7 \<rparr>,
       icu = \<lparr> rate = PFloat (1080863910568919 / 72057594037927936), days = PInt 9 \<rparr>,
       infectious_days = PInt 14,
       market_share = PFloat (5404319552844595 / 36028797018963968),
       n_days = PInt 60,
       relative_contact_rate = PFloat (5404319552844595 / 18014398509481984),
       ventilated = \<lparr> rate = PFloat (5764607523034235 / 576460752303423488), days = PInt 10 \<rparr>,
       max_y_axis = PNone \<rparr>"

text \<open>
  A second submission: the doubling time is 0, so the date of the first hospitalisation
  drives the model, and the current date is left empty.
\<close>

definition second_values :: "pyval list" where
  "second_values = sample_values[4 := PInt 0, 14 := PStr []]"

definition second_coerced :: "pyval pydict" where
  "second_coerced =
     [(''population'', PInt 1000000), (''market_share'', PFloat 15),
      (''current_hospitalized'', PInt 4), (''date_first_hospitalized'', PDate 2020 3 1),
      (''doubling_time'', PInt 0), (''relative_contact_rate'', PFloat 30),
      (''hospitalized_rate'', PFloat 8), (''icu_rate'', PFloat (3 / 2)),
      (''ventilated_rate'', PFloat 1), (''infectious_days'', PInt 14),
      (''hospitalized_los'', PInt 7), (''icu_los'', PInt 9), (''ventilated_los'', PInt 10),
      (''n_days'', PInt 60), (''current_date'', PStr []),
      (''max_y_axis_value'', PNone), (''show_tables'', PBool True),
      (''show_tool_details'', PBool False)]"

definition second_kwargs :: parameters_kwargs where
  "second_kwargs = sample_kwargs\<lparr> date_first_hospitalized := PDate 2020 3 1, doubling_time := PNone \<rparr>"

text \<open>A third submission: both the doubling time and the date of the first hospitalisation are cleared.\<close>

definition third_values :: "pyval list" where
  "third_values = sample_values[3 := PNone, 4 := PNone]"

definition third_coerced :: "pyval pydict" where
  "third_coerced =
     [(''population'', PInt 1000000), (''market_share'', PFloat 15),
      (''current_hospitalized'', PInt 4), (''date_first_hospitalized'', PNone),
      (''doubling_time'', PNone), (''relative_contact_rate'', PFloat 30),
      (''hospitalized_rate'', PFloat 8), (''icu_rate'', PFloat (3 / 2)),
      (''ventilated_rate'', PFloat 1), (''infectious_days'', PInt 14),
      (''hospitalized_los'', PInt 7), (''icu_los'', PInt 9), (''ventilated_los'', PInt 10),
      (''n_days'', PInt 60), (''current_date'', PDate 2021 3 15),
      (''max_y_axis_value'', PNone), (''show_tables'', PBool True),
      (''show_tool_details'', PBool False)]"

definition third_kwargs :: parameters_kwargs where
  "third_kwargs = sample_kwargs\<lparr> date_first_hospitalized := PNone, doubling_time := PNone \<rparr>"

text \<open>The \<^verbatim>\<open>repr\<close> of the floats of the two submissions; no string is printed inside a list there.\<close>

definition sample_reprs :: reprs where
  "sample_reprs =
     \<lparr> float_repr = (\<lambda>x. case map_of [(15, ''15.0''), (9 / 2, ''4.5''), (30, ''30.0''),
                                          (8, ''8.0''), (3 / 2, ''1.5''), (1, ''1.0'')] x of
                            Some s \<Rightarrow> s | None \<Rightarrow> []),
       str_repr = (\<lambda>s. []) \<rparr>"

section \<open>Basic facts\<close>

subsection \<open>Dictionaries\<close>

lemma dict_set_fresh: "key \<notin> fst ` set d \<Longrightarrow> dict_set d key v = d @ [(key, v)]"
  by (induction d) auto

lemma dict_set_keys: "key \<in> fst ` set d \<Longrightarrow> map fst (dict_set d key v) = map fst d"
  by (induction d) force+

lemma dict_get_present: "dict_get d key = Inr v \<Longrightarrow> key \<in> fst ` set d"
  by (induction d) (auto split: if_splits)

lemma dict_get_member: "dict_get d key = Inr v \<Longrightarrow> (key, v) \<in> set d"
  by (induction d) (auto split: if_splits)

lemma dict_get_zip:
  "distinct ks \<Longrightarrow> i < length ks \<Longrightarrow> length vs = length ks \<Longrightarrow> dict_get (zip ks vs) (ks ! i) = Inr (vs ! i)"
proof (induction ks arbitrary: i vs)
  case Nil
  then show ?case by simp
next
  case (Cons k ks)
  then obtain v vs' where vs: "vs = v # vs'" by (cases vs) auto
  show ?case
  proof (cases i)
    case 0
    then show ?thesis by (simp add: vs)
  next
    case (Suc j)
    with Cons.prems have "ks ! j \<noteq> k" by auto
    with Cons.IH [of j vs'] Cons.prems show ?thesis by (auto simp: vs Suc)
  qed
qed

lemma foldl_dict_set:
  "distinct (map fst (d @ ps)) \<Longrightarrow> foldl (\<lambda>d (k, v). dict_set d k v) d ps = d @ ps"
proof (induction ps arbitrary: d)
  case Nil
  then show ?case by simp
next
  case (Cons p ps)
  obtain k v where p: "p = (k, v)" by (cases p)
  from Cons.prems have "k \<notin> fst ` set d" by (auto simp: p)
  then have "dict_set d k v = d @ [(k, v)]" by (rule dict_set_fresh)
  moreover from Cons.prems have "distinct (map fst ((d @ [(k, v)]) @ ps))" by (simp add: p)
  ultimately show ?case using Cons.IH [of "d @ [(k, v)]"] by (simp add: p)
qed

lemma dict_of_distinct: "distinct (map fst ps) \<Longrightarrow> dict_of ps = ps"
  using foldl_dict_set [of "[]" ps] by (simp add: dict_of_def)

subsection \<open>The table\<close>

lemma input_types:
  "input_type ''hospital_parameters'' = Inr (AStr ''header'')"
  "input_type ''population'' = Inr (AStr ''number'')"
  "input_type ''market_share'' = Inr (AStr ''number'')"
  "input_type ''current_hospitalized'' = Inr (AStr ''number'')"
  "input_type ''spread_parameters'' = Inr (AStr ''header'')"
  "input_type ''date_first_hospitalized'' = Inr (AStr ''date'')"
  "input_type ''doubling_time'' = Inr (AStr ''number'')"
  "input_type ''relative_contact_rate'' = Inr (AStr ''number'')"
  "input_type ''severity_parameters'' = Inr (AStr ''header'')"
  "input_type ''hospitalized_rate'' = Inr (AStr ''number'')"
  "input_type ''icu_rate'' = Inr (AStr ''number'')"
  "input_type ''ventilated_rate'' = Inr (AStr ''number'')"
  "input_type ''infectious_days'' = Inr (AStr ''number'')"
  "input_type ''hospitalized_los'' = Inr (AStr ''number'')"
  "input_type ''icu_los'' = Inr (AStr ''number'')"
  "input_type ''ventilated_los'' = Inr (AStr ''number'')"
  "input_type ''display_parameters'' = Inr (AStr ''header'')"
  "input_type ''n_days'' = Inr (AStr ''number'')"
  "input_type ''current_date'' = Inr (AStr ''date'')"
  "input_type ''max_y_axis_value'' = Inr (AStr ''number'')"
  "input_type ''show_tables'' = Inr (AStr ''switch'')"
  "input_type ''show_tool_details'' = Inr (AStr ''switch'')"
  "input_type ''download_as_pdf_link'' = Inr (AStr ''link'')"
  by (simp_all add: INPUTS_def input_type_def bind_err_def)

lemma table_keys:
  "map fst INPUTS =
     [''hospital_parameters'', ''population'', ''market_share'', ''current_hospitalized'',
      ''spread_parameters'', ''date_first_hospitalized'', ''doubling_time'',
      ''relative_contact_rate'', ''severity_parameters'', ''hospitalized_rate'', ''icu_rate'',
      ''ventilated_rate'', ''infectious_days'', ''hospitalized_los'', ''icu_los'',
      ''ventilated_los'', ''display_parameters'', ''n_days'', ''current_date'',
      ''max_y_axis_value'', ''show_tables'', ''show_tool_details'', ''download_as_pdf_link'']"
  by (simp add: INPUTS_def)

lemma ordered_keys: "get_ordered_input_keys = Inr interactive_keys"
  unfolding get_ordered_input_keys_def table_keys
  by (simp add: input_types interactive_keys_def)

lemma distinct_interactive_keys: "distinct interactive_keys"
  by (simp add: interactive_keys_def)

lemma length_interactive_keys: "length interactive_keys = 18"
  by (simp add: interactive_keys_def)

lemma dict_of_zip: "dict_of (zip interactive_keys raw) = zip interactive_keys raw"
  by (rule dict_of_distinct) (simp add: distinct_interactive_keys map_fst_zip_take)

lemma upt18: "[0..<18] = [0, 1, 2, 3, 4, 5, 6, 7, 8, 9, 10, 11, 12, 13, 14, 15, 16, 17::nat]"
  by code_simp

lemma list18:
  assumes "length xs = 18"
  shows "xs = [xs ! 0, xs ! 1, xs ! 2, xs ! 3, xs ! 4, xs ! 5, xs ! 6, xs ! 7, xs ! 8, xs ! 9,
               xs ! 10, xs ! 11, xs ! 12, xs ! 13, xs ! 14, xs ! 15, xs ! 16, xs ! 17]"
proof -
  have "xs = map ((!) xs) [0..<18]"
    using map_nth [of xs] assms by simp
  then show ?thesis
    unfolding upt18 by simp
qed

subsection \<open>The coercion in closed form\<close>

lemma get_formated_values_18:
  assumes "length raw = 18"
  shows "get_formated_values raw =
    (case coerce_date (raw ! 3) of
       Inl e \<Rightarrow> Inl e
     | Inr a \<Rightarrow>
         (case coerce_date (raw ! 14) of
            Inl e \<Rightarrow> Inl e
          | Inr b \<Rightarrow> Inr (coerced_dict raw a b)))"
proof -
  obtain v0 v1 v2 v3 v4 v5 v6 v7 v8 v9 v10 v11 v12 v13 v14 v15 v16 v17 where
    raw: "raw = [v0, v1, v2, v3, v4, v5, v6, v7, v8, v9, v10, v11, v12, v13, v14, v15, v16, v17]"
    using list18 [OF assms] by blast
  show ?thesis
    unfolding get_formated_values_def ordered_keys bind_err_def sum.case dict_of_zip table_keys
      coerced_dict_def
    unfolding raw interactive_keys_def
    by (simp add: input_types split: sum.splits)
qed


subsection \<open>The loop of the coercion\<close>

lemma dict_set_get_keys: "dict_get d key = Inr v \<Longrightarrow> map fst (dict_set d key w) = map fst d"
  by (rule dict_set_keys) (rule dict_get_present)

lemma format_loop_step:
  assumes "format_loop (k # ks) r = Inr r'"
  shows "\<exists>r1. format_loop ks r1 = Inr r' \<and> map fst r1 = map fst r \<and>
     (input_type k = Inr (AStr ''switch'') \<or> input_type k = Inr (AStr ''date'') \<longrightarrow> k \<in> fst ` set r)"
proof (cases "input_type k")
  case (Inl e)
  with assms show ?thesis by simp
next
  case (Inr t)
  show ?thesis
  proof (cases "t = AStr ''switch'' \<or> t = AStr ''date''")
    case False
    with assms Inr show ?thesis by auto
  next
    case True
    with assms Inr obtain v where v: "dict_get r k = Inr v"
      by (cases "dict_get r k") (auto split: if_splits)
    from True assms Inr v obtain w where "format_loop ks (dict_set r k w) = Inr r'"
      by (auto split: if_splits sum.splits)
    moreover have "map fst (dict_set r k w) = map fst r"
      using v by (rule dict_set_get_keys)
    moreover have "k \<in> fst ` set r"
      using v by (rule dict_get_present)
    ultimately show ?thesis by blast
  qed
qed

lemma format_loop_keys:
  "format_loop ks r = Inr r' \<Longrightarrow> map fst r' = map fst r"
proof (induction ks arbitrary: r)
  case Nil
  then show ?case by simp
next
  case (Cons k ks)
  from format_loop_step [OF Cons.prems] obtain r1 where
    "format_loop ks r1 = Inr r'" "map fst r1 = map fst r" by blast
  with Cons.IH [of r1] show ?case by simp
qed



subsection \<open>Parsing what isoformat prints\<close>

lemma digit_of_digit_char: "digit_of (digit_char n) = Some (n mod 10)"
proof -
  have "(48 + n mod 10) mod 256 = 48 + n mod 10"
    by (rule mod_less) (use mod_less_divisor [of 10 n] in linarith)
  then show ?thesis
    by (simp add: digit_of_def digit_char_def Let_def)
qed

lemma re_Y_digits:
  "re_Y (digit_char a # digit_char b # digit_char c # digit_char d # s) =
     Some (1000 * (a mod 10) + 100 * (b mod 10) + 10 * (c mod 10) + d mod 10, s)"
  by (simp add: digit_of_digit_char)

lemma year_digits:
  assumes "y \<le> 9999"
  shows "1000 * (y div 1000 mod 10) + 100 * (y div 100 mod 10) + 10 * (y div 10 mod 10) + y mod 10 = (y::nat)"
proof -
  define q1 where "q1 = y div 10"
  define q2 where "q2 = q1 div 10"
  define q3 where "q3 = q2 div 10"
  have a: "y div 100 = q2" unfolding q2_def q1_def by (simp add: div_mult2_eq)
  have b: "y div 1000 = q3" unfolding q3_def q2_def q1_def by (simp add: div_mult2_eq)
  have "y < 10 * 1000" using assms by simp
  then have "y div 1000 < 10" by (rule less_mult_imp_div_less)
  then have c: "q3 mod 10 = q3" unfolding b by simp
  have e1: "y = 10 * q1 + y mod 10" unfolding q1_def by simp
  have e2: "q1 = 10 * q2 + q1 mod 10" unfolding q2_def by simp
  have e3: "q2 = 10 * q3 + q2 mod 10" unfolding q3_def by simp
  show ?thesis unfolding a b c q1_def [symmetric] using e1 e2 e3 by linarith
qed

lemma two_digits_of:
  assumes "n \<le> 99"
  obtains a k where "n div 10 = a" "n mod 10 = k" "a mod 10 = a" "k < 10" "n = 10 * a + (k::nat)"
proof -
  have "n < 10 * 10" using assms by simp
  then have "n div 10 < 10" by (rule less_mult_imp_div_less)
  then have "n div 10 mod 10 = n div 10" by simp
  moreover have "n mod 10 < 10" by simp
  moreover have "n = 10 * (n div 10) + n mod 10" by simp
  ultimately show thesis using that by blast
qed

lemma re_m_two:
  assumes "digit_of c1 = Some a" "digit_of c2 = Some k"
    and "(a = 1 \<and> k \<le> 2) \<or> (a = 0 \<and> 1 \<le> k)"
  shows "re_m (c1 # c2 # s) = Some (10 * a + k, s)"
  using assms by (auto simp: re_m_def or_else_def)

lemma re_d_two:
  assumes "digit_of c1 = Some a" "digit_of c2 = Some k"
    and "(a = 3 \<and> k \<le> 1) \<or> (1 \<le> a \<and> a \<le> 2) \<or> (a = 0 \<and> 1 \<le> k)"
  shows "re_d [c1, c2] = Some (10 * a + k, [])"
  using assms by (auto simp: re_d_def or_else_def)

lemma re_m_digits:
  assumes "1 \<le> m" "m \<le> 12"
  shows "re_m (digit_char (m div 10) # digit_char m # s) = Some (m, s)"
proof -
  from assms have "m \<le> 99" by simp
  then obtain a k where ak: "m div 10 = a" "m mod 10 = k" "a mod 10 = a" "k < 10" "m = 10 * a + k"
    by (rule two_digits_of)
  have digits: "digit_of (digit_char (m div 10)) = Some a" "digit_of (digit_char m) = Some k"
    by (simp_all add: digit_of_digit_char ak(1,2,3))
  from ak(4,5) assms have "(a = 1 \<and> k \<le> 2) \<or> (a = 0 \<and> 1 \<le> k)" by linarith
  from re_m_two [OF digits this] show ?thesis by (simp only: ak(5))
qed

lemma re_d_digits:
  assumes "1 \<le> d" "d \<le> 31"
  shows "re_d [digit_char (d div 10), digit_char d] = Some (d, [])"
proof -
  from assms have "d \<le> 99" by simp
  then obtain a k where ak: "d div 10 = a" "d mod 10 = k" "a mod 10 = a" "k < 10" "d = 10 * a + k"
    by (rule two_digits_of)
  have digits: "digit_of (digit_char (d div 10)) = Some a" "digit_of (digit_char d) = Some k"
    by (simp_all add: digit_of_digit_char ak(1,2,3))
  from ak(4,5) assms have "(a = 3 \<and> k \<le> 1) \<or> (1 \<le> a \<and> a \<le> 2) \<or> (a = 0 \<and> 1 \<le> k)"
    by linarith
  from re_d_two [OF digits this] show ?thesis by (simp only: ak(5))
qed

lemma days_in_month_le: "days_in_month y m \<le> 31"
  by (simp add: days_in_month_def)

lemma match_ymd_isoformat:
  assumes "valid_date y m d"
  shows "match_ymd (isoformat y m d) = Some (y, m, d, [])"
proof -
  from assms have y: "y \<le> 9999" and m: "1 \<le> m" "m \<le> 12" and d: "1 \<le> d" "d \<le> 31"
    using days_in_month_le [of y m] by (auto simp: valid_date_def)
  show ?thesis
    unfolding match_ymd_def isoformat_def re_Y_digits
    by (simp add: year_digits [OF y] re_m_digits [OF m] re_d_digits [OF d])
qed

lemma strptime_isoformat:
  "valid_date y m d \<Longrightarrow> strptime_date (PStr (isoformat y m d)) = Inr (PDate y m d)"
  by (simp add: strptime_date_def match_ymd_isoformat)

lemma coerce_date_isoformat:
  "valid_date y m d \<Longrightarrow> coerce_date (PStr (isoformat y m d)) = Inr (PDate y m d)"
  by (simp add: coerce_date_def strptime_isoformat) (simp add: isoformat_def)

lemma coerce_date_falsy: "\<not> py_truthy v \<Longrightarrow> coerce_date v = Inr v"
  by (simp add: coerce_date_def)

subsection \<open>The sample submission\<close>

lemma iso_2020_03_01: "isoformat 2020 3 1 = ''2020-03-01''"
  by code_simp

lemma iso_2021_03_15: "isoformat 2021 3 15 = ''2021-03-15''"
  by code_simp

lemma valid_sample_dates: "valid_date 2020 3 1" "valid_date 2021 3 15"
  by (simp_all add: valid_date_def days_in_month_def)

lemma coerce_date_2020_03_01: "coerce_date (PStr ''2020-03-01'') = Inr (PDate 2020 3 1)"
  using coerce_date_isoformat [OF valid_sample_dates(1)] by (simp only: iso_2020_03_01)

lemma coerce_date_2021_03_15: "coerce_date (PStr ''2021-03-15'') = Inr (PDate 2021 3 15)"
  using coerce_date_isoformat [OF valid_sample_dates(2)] by (simp only: iso_2021_03_15)

lemma coerce_switch_on: "coerce_switch (PList [PBool True]) = PBool True"
  by (simp add: coerce_switch_def)

lemma coerce_switch_off: "coerce_switch (PList []) = PBool False"
  by (simp add: coerce_switch_def)

lemma length_sample: "length sample_values = 18"
  by (simp add: sample_values_def)

lemma coerced_sample: "get_formated_values sample_values = Inr sample_coerced"
proof -
  have "coerce_date (sample_values ! 3) = Inr (PDate 2020 3 1)"
    by (simp add: sample_values_def coerce_date_2020_03_01)
  moreover have "coerce_date (sample_values ! 14) = Inr (PDate 2021 3 15)"
    by (simp add: sample_values_def coerce_date_2021_03_15)
  moreover have "coerced_dict sample_values (PDate 2020 3 1) (PDate 2021 3 15) = sample_coerced"
    by (simp add: coerced_dict_def sample_values_def interactive_keys_def sample_coerced_def
        coerce_switch_on coerce_switch_off)
  ultimately show ?thesis
    by (simp add: get_formated_values_18 [OF length_sample])
qed

lemma length_second: "length second_values = 18"
  by (simp add: second_values_def length_sample)

lemma coerced_second: "get_formated_values second_values = Inr second_coerced"
proof -
  have "coerce_date (second_values ! 3) = Inr (PDate 2020 3 1)"
    by (simp add: second_values_def sample_values_def coerce_date_2020_03_01)
  moreover have "coerce_date (second_values ! 14) = Inr (PStr [])"
    by (simp add: second_values_def sample_values_def coerce_date_def)
  moreover have "coerced_dict second_values (PDate 2020 3 1) (PStr []) = second_coerced"
    by (simp add: coerced_dict_def second_values_def sample_values_def interactive_keys_def
        second_coerced_def coerce_switch_on coerce_switch_off)
  ultimately show ?thesis
    by (simp add: get_formated_values_18 [OF length_second])
qed

lemma length_third: "length third_values = 18"
  by (simp add: third_values_def length_sample)

lemma coerced_third: "get_formated_values third_values = Inr third_coerced"
proof -
  have "coerce_date (third_values ! 3) = Inr PNone"
    by (simp add: third_values_def sample_values_def coerce_date_def)
  moreover have "coerce_date (third_values ! 14) = Inr (PDate 2021 3 15)"
    by (simp add: third_values_def sample_values_def coerce_date_2021_03_15)
  moreover have "coerced_dict third_values PNone (PDate 2021 3 15) = third_coerced"
    by (simp add: coerced_dict_def third_values_def sample_values_def interactive_keys_def
        third_coerced_def coerce_switch_on coerce_switch_off)
  ultimately show ?thesis
    by (simp add: get_formated_values_18 [OF length_third])
qed

subsection \<open>The arguments of the constructor\<close>

lemma bind_err_Inr_iff: "bind_err m f = Inr y \<longleftrightarrow> (\<exists>x. m = Inr x \<and> f x = Inr y)"
  by (cases m) (simp_all add: bind_err_def)

lemma bind_err_Inr: "m = Inr x \<Longrightarrow> bind_err m f = f x"
  by (simp add: bind_err_def)


lemma sample_rates:
  "py_truediv_100 (PFloat 8) = Inr (PFloat (5764607523034235 / 72057594037927936))"
  "py_truediv_100 (PFloat (3 / 2)) = Inr (PFloat (1080863910568919 / 72057594037927936))"
  "py_truediv_100 (PFloat 15) = Inr (PFloat (5404319552844595 / 36028797018963968))"
  "py_truediv_100 (PFloat 30) = Inr (PFloat (5404319552844595 / 18014398509481984))"
  "py_truediv_100 (PFloat 1) = Inr (PFloat (5764607523034235 / 576460752303423488))"
  by code_simp+

text \<open>The quotient is rounded, and an \<^verbatim>\<open>int\<close> beyond the doubles overflows.\<close>

lemma py_truediv_100_rounds:
  "py_truediv_100 (PFloat (2476979795053773 / 2251799813685248)) =
     Inr (PFloat (6341068275337659 / 576460752303423488))"
  by code_simp

lemma floor_rat_numeral: "\<lfloor>numeral a / numeral b :: rat\<rfloor> = numeral a div numeral b"
  using floor_divide_of_int_eq [of "numeral a" "numeral b", where ?'a = rat] by simp

lemma ceiling_rat_numeral: "\<lceil>numeral a / numeral b :: rat\<rceil> = - (- numeral a div numeral b)"
  using ceiling_divide_eq_div [of "numeral a" "numeral b", where ?'a = rat] by simp

lemma py_truediv_100_overflow: "py_truediv_100 (PInt (10 ^ 400)) = Inl OverflowError"
  by (simp add: py_truediv_100_def round_to_double_def floor_log2_def pow2_def
      round_half_even_def Let_def floor_rat_numeral ceiling_rat_numeral bit_length.simps)

lemma parameters_call_sample: "parameters_call sample_coerced = Inr sample_kwargs"
  by (simp add: parameters_call_def sample_coerced_def sample_kwargs_def bind_err_def
      sample_rates dict_get_default_def)

lemma parameters_call_second: "parameters_call second_coerced = Inr second_kwargs"
  by (simp add: parameters_call_def second_coerced_def second_kwargs_def sample_kwargs_def
      bind_err_def sample_rates dict_get_default_def)

lemma parameters_call_third: "parameters_call third_coerced = Inr third_kwargs"
  by (simp add: parameters_call_def third_coerced_def third_kwargs_def sample_kwargs_def
      bind_err_def sample_rates dict_get_default_def)

lemma parameters_call_Inr:
  assumes "parameters_call d = Inr kw"
  shows "\<exists>c dfh pop ch hr hl ir il idays ms nd rc vr vl qh qi qm qr qv.
     dict_get d ''doubling_time'' = Inr c \<and>
     (py_truthy c \<or> dict_get d ''date_first_hospitalized'' = Inr dfh) \<and>
     dict_get d ''population'' = Inr pop \<and>
     dict_get d ''current_hospitalized'' = Inr ch \<and>
     dict_get d ''hospitalized_rate'' = Inr hr \<and> py_truediv_100 hr = Inr qh \<and>
     dict_get d ''hospitalized_los'' = Inr hl \<and>
     dict_get d ''icu_rate'' = Inr ir \<and> py_truediv_100 ir = Inr qi \<and>
     dict_get d ''icu_los'' = Inr il \<and>
     dict_get d ''infectious_days'' = Inr idays \<and>
     dict_get d ''market_share'' = Inr ms \<and> py_truediv_100 ms = Inr qm \<and>
     dict_get d ''n_days'' = Inr nd \<and>
     dict_get d ''relative_contact_rate'' = Inr rc \<and> py_truediv_100 rc = Inr qr \<and>
     dict_get d ''ventilated_rate'' = Inr vr \<and> py_truediv_100 vr = Inr qv \<and>
     dict_get d ''ventilated_los'' = Inr vl \<and>
     kw = \<lparr> population = pop, current_hospitalized = ch,
            date_first_hospitalized = (if py_truthy c then PNone else dfh),
            doubling_time = (if py_truthy c then c else PNone),
            hospitalized = \<lparr> rate = qh, days = hl \<rparr>,
            icu = \<lparr> rate = qi, days = il \<rparr>,
            infectious_days = idays,
            market_share = qm,
            n_days = nd,
            relative_contact_rate = qr,
            ventilated = \<lparr> rate = qv, days = vl \<rparr>,
            max_y_axis = dict_get_default d ''max_y_axis_value'' PNone \<rparr>"
  using assms unfolding parameters_call_def bind_err_Inr_iff
  by (cases "\<exists>c. dict_get d ''doubling_time'' = Inr c \<and> py_truthy c") (auto split: if_splits)

lemma update_parameters_call:
  assumes "get_formated_values raw = Inr d" and "parameters_call d = Inr kw"
  shows "update_parameters P S raw = bind_err (P kw) (\<lambda>pars. bind_err (S pars) (\<lambda>s. Inr [s]))"
  by (simp add: update_parameters_def bind_err_Inr [OF assms(1)] bind_err_Inr [OF assms(2)])

section \<open>The claims\<close>

text \<open>
  C1 (as the code has it). For every coerced value map, \<^verbatim>\<open>update_parameters\<close> hands the
  constructor at most one of the doubling time and the date of the first hospitalisation: a
  truthy coerced doubling time is passed and the date is passed as \<^verbatim>\<open>None\<close>, whatever the
  form sent for it; a falsy doubling time (0, empty or \<^verbatim>\<open>None\<close>) is passed as \<^verbatim>\<open>None\<close> and
  the coerced date is passed, which may itself be empty. The doubling time that the
  constructor receives is set exactly when the coerced one is truthy, and the two arguments
  are never both set.
\<close>

theorem update_parameters_one_spread_input:
  assumes "get_formated_values raw = Inr d" and "parameters_call d = Inr kw"
  shows "update_parameters P S raw = bind_err (P kw) (\<lambda>pars. bind_err (S pars) (\<lambda>s. Inr [s]))
    \<and> (\<exists>dt. dict_get d ''doubling_time'' = Inr dt \<and>
          (py_truthy dt \<longrightarrow> doubling_time kw = dt \<and> date_first_hospitalized kw = PNone) \<and>
          (\<not> py_truthy dt \<longrightarrow>
             dict_get d ''date_first_hospitalized'' = Inr (date_first_hospitalized kw) \<and>
             doubling_time kw = PNone) \<and>
          (doubling_time kw \<noteq> PNone \<longleftrightarrow> py_truthy dt))
    \<and> (doubling_time kw = PNone \<or> date_first_hospitalized kw = PNone)"
proof -
  from parameters_call_Inr [OF assms(2)] obtain c dfh where
    c: "dict_get d ''doubling_time'' = Inr c"
    and dfh: "py_truthy c \<or> dict_get d ''date_first_hospitalized'' = Inr dfh"
    and kw: "date_first_hospitalized kw = (if py_truthy c then PNone else dfh)"
      "doubling_time kw = (if py_truthy c then c else PNone)"
    by force
  from c dfh kw have "\<exists>dt. dict_get d ''doubling_time'' = Inr dt \<and>
          (py_truthy dt \<longrightarrow> doubling_time kw = dt \<and> date_first_hospitalized kw = PNone) \<and>
          (\<not> py_truthy dt \<longrightarrow>
             dict_get d ''date_first_hospitalized'' = Inr (date_first_hospitalized kw) \<and>
             doubling_time kw = PNone) \<and>
          (doubling_time kw \<noteq> PNone \<longleftrightarrow> py_truthy dt)"
    by auto
  moreover from kw have "doubling_time kw = PNone \<or> date_first_hospitalized kw = PNone"
    by auto
  ultimately show ?thesis
    using update_parameters_call [OF assms] by blast
qed

theorem update_parameters_one_spread_input_witness:
  "get_formated_values sample_values = Inr sample_coerced
   \<and> parameters_call sample_coerced = Inr sample_kwargs
   \<and> dict_get sample_coerced ''doubling_time'' = Inr (PFloat (9 / 2))
   \<and> dict_get sample_coerced ''date_first_hospitalized'' = Inr (PDate 2020 3 1)
   \<and> py_truthy (PFloat (9 / 2))
   \<and> doubling_time sample_kwargs = PFloat (9 / 2)
   \<and> date_first_hospitalized sample_kwargs = PNone
   \<and> update_parameters Inr Inr sample_values = Inr [sample_kwargs]
   \<and> get_formated_values second_values = Inr second_coerced
   \<and> parameters_call second_coerced = Inr second_kwargs
   \<and> dict_get second_coerced ''doubling_time'' = Inr (PInt 0)
   \<and> \<not> py_truthy (PInt 0)
   \<and> doubling_time second_kwargs = PNone
   \<and> dict_get second_coerced ''date_first_hospitalized'' = Inr (date_first_hospitalized second_kwargs)
   \<and> date_first_hospitalized second_kwargs = PDate 2020 3 1"
proof -
  have dt: "dict_get sample_coerced ''doubling_time'' = Inr (PFloat (9 / 2))"
    and dfh: "dict_get sample_coerced ''date_first_hospitalized'' = Inr (PDate 2020 3 1)"
    by (simp_all add: sample_coerced_def)
  from update_parameters_one_spread_input [OF coerced_sample parameters_call_sample, of Inr Inr]
  have "update_parameters Inr Inr sample_values = Inr [sample_kwargs]"
    and "doubling_time sample_kwargs = PFloat (9 / 2) \<and> date_first_hospitalized sample_kwargs = PNone"
    by (simp_all add: dt bind_err_def)
  moreover
  have dt2: "dict_get second_coerced ''doubling_time'' = Inr (PInt 0)"
    by (simp add: second_coerced_def)
  from update_parameters_one_spread_input [OF coerced_second parameters_call_second, of Inr Inr]
  have "doubling_time second_kwargs = PNone \<and>
    dict_get second_coerced ''date_first_hospitalized'' = Inr (date_first_hospitalized second_kwargs)"
    by (simp add: dt2)
  moreover have "date_first_hospitalized second_kwargs = PDate 2020 3 1"
    by (simp add: second_kwargs_def)
  ultimately show ?thesis
    using coerced_sample parameters_call_sample dt dfh coerced_second parameters_call_second dt2
    by simp
qed

text \<open>
  Both fields cleared: the coercion and the assembly succeed, and the constructor receives
  \<^verbatim>\<open>None\<close> for the doubling time and for the date, so not exactly one of them.
\<close>

theorem update_parameters_both_cleared_counterexample:
  "get_formated_values third_values = Inr third_coerced
   \<and> parameters_call third_coerced = Inr third_kwargs
   \<and> update_parameters Inr Inr third_values = Inr [third_kwargs]
   \<and> doubling_time third_kwargs = PNone
   \<and> date_first_hospitalized third_kwargs = PNone"
proof -
  have "update_parameters Inr Inr third_values = Inr [third_kwargs]"
    using coerced_third parameters_call_third
    by (simp add: update_parameters_call bind_err_def)
  then show ?thesis
    using coerced_third parameters_call_third by (simp add: third_kwargs_def)
qed



lemma get_formated_values_Inr:
  assumes "length raw = 18" and "get_formated_values raw = Inr d"
  obtains a b where "coerce_date (raw ! 3) = Inr a" "coerce_date (raw ! 14) = Inr b"
    "d = coerced_dict raw a b"
  using assms(2) unfolding get_formated_values_18 [OF assms(1)]
  by (auto split: sum.splits)


lemma coerced_dict_plain:
  assumes "length raw = 18"
  shows "dict_get (coerced_dict raw a b) ''population'' = Inr (raw ! 0)"
    and "dict_get (coerced_dict raw a b) ''current_hospitalized'' = Inr (raw ! 2)"
    and "dict_get (coerced_dict raw a b) ''infectious_days'' = Inr (raw ! 9)"
    and "dict_get (coerced_dict raw a b) ''n_days'' = Inr (raw ! 13)"
proof -
  obtain v0 v1 v2 v3 v4 v5 v6 v7 v8 v9 v10 v11 v12 v13 v14 v15 v16 v17 where
    raw: "raw = [v0, v1, v2, v3, v4, v5, v6, v7, v8, v9, v10, v11, v12, v13, v14, v15, v16, v17]"
    using list18 [OF assms] by blast
  show "dict_get (coerced_dict raw a b) ''population'' = Inr (raw ! 0)"
    and "dict_get (coerced_dict raw a b) ''current_hospitalized'' = Inr (raw ! 2)"
    and "dict_get (coerced_dict raw a b) ''infectious_days'' = Inr (raw ! 9)"
    and "dict_get (coerced_dict raw a b) ''n_days'' = Inr (raw ! 13)"
    unfolding raw coerced_dict_def interactive_keys_def by simp_all
qed










subsection \<open>Fields by position\<close>

lemma index_cases:
  assumes "i < (18::nat)"
  shows "i \<in> set [0, 1, 2, 3, 4, 5, 6, 7, 8, 9, 10, 11, 12, 13, 14, 15, 16, 17]"
proof -
  from assms have "i \<in> set [0..<18]" by simp
  then show ?thesis unfolding upt18 .
qed

lemma switch_index:
  assumes "i < length interactive_keys" and "input_type (interactive_keys ! i) = Inr (AStr ''switch'')"
  shows "i = 16 \<or> i = 17"
proof -
  from assms(1) have "i \<in> set [0, 1, 2, 3, 4, 5, 6, 7, 8, 9, 10, 11, 12, 13, 14, 15, 16, 17]"
    by (simp only: length_interactive_keys index_cases)
  with assms(2) show ?thesis
    by (auto simp: interactive_keys_def input_types)
qed

lemma date_index:
  assumes "i < length interactive_keys" and "input_type (interactive_keys ! i) = Inr (AStr ''date'')"
  shows "i = 3 \<or> i = 14"
proof -
  from assms(1) have "i \<in> set [0, 1, 2, 3, 4, 5, 6, 7, 8, 9, 10, 11, 12, 13, 14, 15, 16, 17]"
    by (simp only: length_interactive_keys index_cases)
  with assms(2) show ?thesis
    by (auto simp: interactive_keys_def input_types)
qed

lemma coerced_dict_keys: "18 \<le> length raw \<Longrightarrow> map fst (coerced_dict raw a b) = interactive_keys"
  by (simp add: coerced_dict_def length_interactive_keys)

lemma coerced_dict_nth:
  assumes "length raw = 18" and "i < 18"
  shows "dict_get (coerced_dict raw a b) (interactive_keys ! i) =
    Inr (raw[3 := a, 14 := b, 16 := coerce_switch (raw ! 16), 17 := coerce_switch (raw ! 17)] ! i)"
  using assms unfolding coerced_dict_def
  by (subst dict_get_zip) (simp_all add: distinct_interactive_keys length_interactive_keys)

lemma py_eq_True_list:
  "py_eq v (PList [PBool True]) \<longleftrightarrow> (\<exists>x. v = PList [x] \<and> py_num x = Some 1)"
proof (cases v)
  case (PList xs)
  show ?thesis
  proof (cases xs)
    case Nil
    with PList show ?thesis by simp
  next
    case (Cons x ys)
    have "py_eq x (PBool True) \<longleftrightarrow> py_num x = Some 1"
      by (cases x) (auto split: option.splits)
    moreover have "py_eq_list ys [] \<longleftrightarrow> ys = []"
      by (cases ys) simp_all
    ultimately show ?thesis using PList Cons by auto
  qed
qed simp_all

lemma get_formated_values_total:
  assumes "length raw = 18"
    and "coerce_date (raw ! 3) = Inr a" and "coerce_date (raw ! 14) = Inr b"
  shows "get_formated_values raw = Inr (coerced_dict raw a b)"
  by (simp add: get_formated_values_18 [OF assms(1)] assms(2,3))

text \<open>
  C3 (as the code has it). For every raw sequence of the right length, the coercion maps
  each field of type switch to \<^verbatim>\<open>True\<close> if and only if its raw value compares equal to
  \<^verbatim>\<open>[True]\<close> under Python's \<^verbatim>\<open>==\<close>, that is, if it is a list of one element that is \<^verbatim>\<open>True\<close>
  or a number equal to 1 (\<^verbatim>\<open>[True]\<close>, \<^verbatim>\<open>[1]\<close>, \<^verbatim>\<open>[1.0]\<close>), and to \<^verbatim>\<open>False\<close> for every other raw
  value, the empty list included. The coercion returns a dictionary whenever the two dates
  coerce.
\<close>

theorem get_formated_values_switch:
  assumes "length raw = length interactive_keys"
    and "i < length interactive_keys"
    and "input_type (interactive_keys ! i) = Inr (AStr ''switch'')"
  shows "(\<forall>m. get_formated_values raw = Inr m \<longrightarrow>
            dict_get m (interactive_keys ! i) = Inr (PBool (py_eq (raw ! i) (PList [PBool True]))))
    \<and> (py_eq (raw ! i) (PList [PBool True]) \<longleftrightarrow> (\<exists>x. raw ! i = PList [x] \<and> py_num x = Some 1))
    \<and> (raw ! i = PList [] \<longrightarrow> \<not> py_eq (raw ! i) (PList [PBool True]))
    \<and> ((\<exists>a. coerce_date (raw ! 3) = Inr a) \<and> (\<exists>b. coerce_date (raw ! 14) = Inr b) \<longrightarrow>
          (\<exists>m. get_formated_values raw = Inr m))"
proof -
  from assms(1) have len: "length raw = 18"
    by (simp add: length_interactive_keys)
  from switch_index [OF assms(2,3)] have i: "i = 16 \<or> i = 17" .
  have "dict_get m (interactive_keys ! i) = Inr (PBool (py_eq (raw ! i) (PList [PBool True])))"
    if "get_formated_values raw = Inr m" for m
  proof -
    from get_formated_values_Inr [OF len that] obtain a b where "m = coerced_dict raw a b"
      by blast
    with i len show ?thesis
      by (auto simp: coerced_dict_nth coerce_switch_def)
  qed
  moreover have "\<exists>m. get_formated_values raw = Inr m"
    if "coerce_date (raw ! 3) = Inr a" "coerce_date (raw ! 14) = Inr b" for a b
    using get_formated_values_total [OF len that] by blast
  ultimately show ?thesis
    by (auto simp: py_eq_True_list)
qed

theorem get_formated_values_switch_witness:
  "length sample_values = length interactive_keys
   \<and> 16 < length interactive_keys
   \<and> input_type (interactive_keys ! 16) = Inr (AStr ''switch'')
   \<and> input_type (interactive_keys ! 17) = Inr (AStr ''switch'')
   \<and> sample_values ! 16 = PList [PBool True]
   \<and> sample_values ! 17 = PList []
   \<and> get_formated_values sample_values = Inr sample_coerced
   \<and> dict_get sample_coerced (interactive_keys ! 16) = Inr (PBool True)
   \<and> dict_get sample_coerced (interactive_keys ! 17) = Inr (PBool False)"
proof -
  have len: "length sample_values = length interactive_keys"
    by (simp add: length_sample length_interactive_keys)
  have i: "16 < length interactive_keys" "17 < length interactive_keys"
    by (simp_all add: length_interactive_keys)
  have t: "input_type (interactive_keys ! 16) = Inr (AStr ''switch'')"
    "input_type (interactive_keys ! 17) = Inr (AStr ''switch'')"
    by (simp_all add: interactive_keys_def input_types)
  have v: "sample_values ! 16 = PList [PBool True]" "sample_values ! 17 = PList []"
    by (simp_all add: sample_values_def)
  from get_formated_values_switch [OF len i(1) t(1)] get_formated_values_switch [OF len i(2) t(2)]
    coerced_sample
  have "dict_get sample_coerced (interactive_keys ! 16) = Inr (PBool True)"
    and "dict_get sample_coerced (interactive_keys ! 17) = Inr (PBool False)"
    by (simp_all add: v)
  with len i t v coerced_sample show ?thesis by simp
qed

text \<open>
  The raw value \<^verbatim>\<open>[1]\<close> is not the list \<^verbatim>\<open>[True]\<close>, and the switch is coerced to \<^verbatim>\<open>True\<close>.
\<close>

theorem get_formated_values_switch_int_counterexample:
  "PList [PInt 1] \<noteq> PList [PBool True]
   \<and> sample_values[17 := PList [PInt 1]] ! 17 = PList [PInt 1]
   \<and> get_formated_values (sample_values[17 := PList [PInt 1]]) =
       Inr (dict_set sample_coerced ''show_tool_details'' (PBool True))"
proof -
  have len: "length (sample_values[17 := PList [PInt 1]]) = 18"
    by (simp add: length_sample)
  have "coerce_date (sample_values[17 := PList [PInt 1]] ! 3) = Inr (PDate 2020 3 1)"
    and "coerce_date (sample_values[17 := PList [PInt 1]] ! 14) = Inr (PDate 2021 3 15)"
    by (simp_all add: sample_values_def coerce_date_2020_03_01 coerce_date_2021_03_15)
  moreover have "coerced_dict (sample_values[17 := PList [PInt 1]]) (PDate 2020 3 1) (PDate 2021 3 15) =
      dict_set sample_coerced ''show_tool_details'' (PBool True)"
    by (simp add: coerced_dict_def sample_values_def interactive_keys_def sample_coerced_def
        coerce_switch_def)
  ultimately have "get_formated_values (sample_values[17 := PList [PInt 1]]) =
       Inr (dict_set sample_coerced ''show_tool_details'' (PBool True))"
    by (simp add: get_formated_values_18 [OF len])
  then show ?thesis
    by (simp add: length_sample)
qed

text \<open>
  C6. For every field of type date, the coercion turns a string in the form
  \<^verbatim>\<open>YYYY-MM-DD\<close> of a date of the calendar into that date, and passes an empty or absent
  value (any falsy value) through unchanged. The date prints as the string it was read
  from: \<^verbatim>\<open>"2021-03-15"\<close> becomes the date 2021-03-15, whose \<^verbatim>\<open>str\<close> is \<^verbatim>\<open>"2021-03-15"\<close>. When
  both dates of the form are empty or such strings, the coercion returns a dictionary.
\<close>
theorem get_formated_values_date:
  assumes "length raw = length interactive_keys"
    and "i < length interactive_keys"
    and "input_type (interactive_keys ! i) = Inr (AStr ''date'')"
  shows "(\<forall>m. get_formated_values raw = Inr m \<longrightarrow>
            (valid_date y mo d \<and> raw ! i = PStr (isoformat y mo d) \<longrightarrow>
               dict_get m (interactive_keys ! i) = Inr (PDate y mo d)) \<and>
            (\<not> py_truthy (raw ! i) \<longrightarrow> dict_get m (interactive_keys ! i) = Inr (raw ! i)))
    \<and> (valid_date y mo d \<longrightarrow> py_str R (PDate y mo d) = isoformat y mo d)
    \<and> coerce_date (PStr ''2021-03-15'') = Inr (PDate 2021 3 15)
    \<and> py_str R (PDate 2021 3 15) = ''2021-03-15''
    \<and> ((\<forall>j \<in> {3, 14}. \<not> py_truthy (raw ! j) \<or>
            (\<exists>y' m' d'. valid_date y' m' d' \<and> raw ! j = PStr (isoformat y' m' d'))) \<longrightarrow>
          (\<exists>m. get_formated_values raw = Inr m))"
proof -
  from assms(1) have len: "length raw = 18"
    by (simp add: length_interactive_keys)
  from date_index [OF assms(2,3)] have i: "i = 3 \<or> i = 14" .
  have get: "dict_get m (interactive_keys ! i) = Inr v"
    if "get_formated_values raw = Inr m" "coerce_date (raw ! i) = Inr v" for m v
  proof -
    from get_formated_values_Inr [OF len that(1)] obtain a b where
      "coerce_date (raw ! 3) = Inr a" "coerce_date (raw ! 14) = Inr b" "m = coerced_dict raw a b"
      by blast
    with i len that(2) show ?thesis
      by (auto simp: coerced_dict_nth)
  qed
  have "dict_get m (interactive_keys ! i) = Inr (PDate y mo d)"
    if "get_formated_values raw = Inr m" "valid_date y mo d" "raw ! i = PStr (isoformat y mo d)" for m
    using get [OF that(1)] coerce_date_isoformat [OF that(2)] that(3) by simp
  moreover have "dict_get m (interactive_keys ! i) = Inr (raw ! i)"
    if "get_formated_values raw = Inr m" "\<not> py_truthy (raw ! i)" for m
    using get [OF that(1)] coerce_date_falsy [OF that(2)] by simp
  moreover have "py_str R (PDate y mo d) = isoformat y mo d"
    by (simp add: py_str_def)
  moreover have "py_str R (PDate 2021 3 15) = ''2021-03-15''"
    by (simp add: py_str_def iso_2021_03_15)
  moreover have "\<exists>m. get_formated_values raw = Inr m"
    if "\<forall>j \<in> {3, 14}. \<not> py_truthy (raw ! j) \<or>
            (\<exists>y' m' d'. valid_date y' m' d' \<and> raw ! j = PStr (isoformat y' m' d'))"
  proof -
    have ok: "\<exists>v. coerce_date (raw ! j) = Inr v" if "j \<in> {3, 14}" for j
      using \<open>\<forall>j \<in> {3, 14}. _\<close> that coerce_date_falsy [of "raw ! j"] coerce_date_isoformat
      by (metis (no_types, lifting))
    from ok [of 3] ok [of 14] obtain a b where
      "coerce_date (raw ! 3) = Inr a" "coerce_date (raw ! 14) = Inr b" by auto
    from get_formated_values_total [OF len this] show ?thesis by blast
  qed
  ultimately show ?thesis
    using coerce_date_2021_03_15 by blast
qed

theorem get_formated_values_date_witness:
  "length sample_values = length interactive_keys
   \<and> 14 < length interactive_keys
   \<and> input_type (interactive_keys ! 14) = Inr (AStr ''date'')
   \<and> valid_date 2021 3 15
   \<and> sample_values ! 14 = PStr (isoformat 2021 3 15)
   \<and> isoformat 2021 3 15 = ''2021-03-15''
   \<and> get_formated_values sample_values = Inr sample_coerced
   \<and> dict_get sample_coerced (interactive_keys ! 14) = Inr (PDate 2021 3 15)
   \<and> py_str sample_reprs (PDate 2021 3 15) = ''2021-03-15''
   \<and> length second_values = length interactive_keys
   \<and> second_values ! 14 = PStr []
   \<and> \<not> py_truthy (PStr [])
   \<and> get_formated_values second_values = Inr second_coerced
   \<and> dict_get second_coerced (interactive_keys ! 14) = Inr (PStr [])
   \<and> valid_date 2020 3 1
   \<and> second_values ! 3 = PStr (isoformat 2020 3 1)"
proof -
  have len: "length sample_values = length interactive_keys"
    and len2: "length second_values = length interactive_keys"
    by (simp_all add: length_sample length_second length_interactive_keys)
  have i: "14 < length interactive_keys"
    by (simp add: length_interactive_keys)
  have t: "input_type (interactive_keys ! 14) = Inr (AStr ''date'')"
    by (simp add: interactive_keys_def input_types)
  have v: "sample_values ! 14 = PStr (isoformat 2021 3 15)"
    by (simp add: sample_values_def iso_2021_03_15)
  have v2: "second_values ! 14 = PStr []"
    by (simp add: second_values_def sample_values_def)
  have "second_values ! 3 = PStr ''2020-03-01''"
    by (simp add: second_values_def sample_values_def)
  then have v3: "second_values ! 3 = PStr (isoformat 2020 3 1)"
    by (simp only: iso_2020_03_01)
  from get_formated_values_date [OF len i t, of 2021 3 15 sample_reprs] coerced_sample valid_sample_dates(2) v
  have "dict_get sample_coerced (interactive_keys ! 14) = Inr (PDate 2021 3 15)"
    and "py_str sample_reprs (PDate 2021 3 15) = ''2021-03-15''"
    by blast+
  moreover
  from get_formated_values_date [OF len2 i t, of 2021 3 15 sample_reprs] coerced_second v2
  have "dict_get second_coerced (interactive_keys ! 14) = Inr (PStr [])"
    by simp
  ultimately show ?thesis
    using len len2 i t v v2 v3 valid_sample_dates iso_2021_03_15 coerced_sample coerced_second
    by simp
qed

lemma interactive_keys_filter:
  "interactive_keys =
     map fst (filter (\<lambda>(key, descr). dict_get descr ''type'' \<notin> {Inr (AStr ''header''), Inr (AStr ''link'')}) INPUTS)"
  by (simp add: interactive_keys_def INPUTS_def)

text \<open>
  C9. \<^verbatim>\<open>get_ordered_input_keys\<close> returns exactly the keys of the table whose type is neither
  header nor link, in the order of the table; as a function of the constant table it has no
  other input and no effect. For every raw sequence of that length, the dictionary that the
  coercion returns has exactly these keys, in this order, and the coercion does return one
  when the two date values are well formed (empty, or the \<^verbatim>\<open>YYYY-MM-DD\<close> form of a date).
\<close>
theorem get_ordered_input_keys_interactive:
  "get_ordered_input_keys =
     Inr (map fst (filter (\<lambda>(key, descr).
            dict_get descr ''type'' \<notin> {Inr (AStr ''header''), Inr (AStr ''link'')}) INPUTS))
   \<and> get_ordered_input_keys = Inr interactive_keys
   \<and> (length raw = length interactive_keys \<longrightarrow>
        (\<forall>m. get_formated_values raw = Inr m \<longrightarrow> map fst m = interactive_keys) \<and>
        ((\<forall>j \<in> {3, 14}. \<not> py_truthy (raw ! j) \<or>
            (\<exists>y m d. valid_date y m d \<and> raw ! j = PStr (isoformat y m d))) \<longrightarrow>
         (\<exists>m. get_formated_values raw = Inr m \<and> map fst m = interactive_keys)))"
proof -
  have keys: "map fst m = interactive_keys"
    if "length raw = length interactive_keys" "get_formated_values raw = Inr m" for m
  proof -
    from that(1) have len: "length raw = 18"
      by (simp add: length_interactive_keys)
    from get_formated_values_Inr [OF len that(2)] obtain a b where "m = coerced_dict raw a b"
      by blast
    with len show ?thesis
      by (simp add: coerced_dict_keys)
  qed
  moreover have "\<exists>m. get_formated_values raw = Inr m"
    if "length raw = length interactive_keys"
      and ok: "\<forall>j \<in> {3, 14}. \<not> py_truthy (raw ! j) \<or>
            (\<exists>y m d. valid_date y m d \<and> raw ! j = PStr (isoformat y m d))"
  proof -
    from that(1) have len: "length raw = 18"
      by (simp add: length_interactive_keys)
    have "\<exists>v. coerce_date (raw ! j) = Inr v" if "j \<in> {3, 14}" for j
      using ok that coerce_date_falsy [of "raw ! j"] coerce_date_isoformat
      by (metis (no_types, lifting))
    from this [of 3] this [of 14] obtain a b where
      "coerce_date (raw ! 3) = Inr a" "coerce_date (raw ! 14) = Inr b" by auto
    from get_formated_values_total [OF len this] show ?thesis by blast
  qed
  ultimately show ?thesis
    using ordered_keys interactive_keys_filter by (auto simp del: insert_iff)
qed

theorem get_ordered_input_keys_interactive_witness:
  "length second_values = length interactive_keys
   \<and> \<not> py_truthy (second_values ! 14)
   \<and> valid_date 2020 3 1
   \<and> second_values ! 3 = PStr (isoformat 2020 3 1)
   \<and> get_formated_values second_values = Inr second_coerced
   \<and> map fst second_coerced = interactive_keys"
proof -
  have len: "length second_values = length interactive_keys"
    by (simp add: length_second length_interactive_keys)
  have v14: "\<not> py_truthy (second_values ! 14)"
    by (simp add: second_values_def sample_values_def)
  have "second_values ! 3 = PStr ''2020-03-01''"
    by (simp add: second_values_def sample_values_def)
  then have v3: "second_values ! 3 = PStr (isoformat 2020 3 1)"
    by (simp only: iso_2020_03_01)
  from v14 v3 have ok: "\<forall>j \<in> {3, 14}. \<not> py_truthy (second_values ! j) \<or>
         (\<exists>y m d. valid_date y m d \<and> second_values ! j = PStr (isoformat y m d))"
    using valid_sample_dates(1) by auto
  from get_ordered_input_keys_interactive [of second_values] len ok
  obtain m where "get_formated_values second_values = Inr m" "map fst m = interactive_keys"
    by blast
  with coerced_second have "map fst second_coerced = interactive_keys"
    by simp
  with len v14 v3 valid_sample_dates(1) coerced_second show ?thesis by blast
qed

subsection \<open>The coercion for any number of values\<close>








lemma strptime_garbage: "strptime_date (PStr ''garbage'') = Inl (ValueError (NoMatch ''garbage''))"
  by (simp add: strptime_date_def match_ymd_def digit_of_def)

lemma coerce_date_garbage: "coerce_date (PStr ''garbage'') = Inl (ValueError (NoMatch ''garbage''))"
  by (simp add: coerce_date_def strptime_garbage)

text \<open>
  C8 (as the code has it). When the raw value of a date field is a non-empty string that
  \<^verbatim>\<open>strptime\<close> does not accept, the error is a \<^verbatim>\<open>ValueError\<close> and the coercion as a whole
  fails: no dictionary is returned. For \<^verbatim>\<open>date_first_hospitalized\<close> the coercion raises
  exactly the error of the parser; for \<^verbatim>\<open>current_date\<close> it raises that error unless the
  date before it has failed already. The error holds the text of the parser's message and
  no key.
\<close>
theorem get_formated_values_bad_date:
  assumes "length raw = length interactive_keys"
    and "i < length interactive_keys"
    and "input_type (interactive_keys ! i) = Inr (AStr ''date'')"
    and "raw ! i = PStr s" and "s \<noteq> []" and "strptime_date (PStr s) = Inl e"
  shows "(\<exists>v. e = ValueError v)
    \<and> (\<exists>e'. get_formated_values raw = Inl e')
    \<and> (i = 3 \<longrightarrow> get_formated_values raw = Inl e)
    \<and> (i = 14 \<longrightarrow>
          get_formated_values raw =
            (case coerce_date (raw ! 3) of Inl e' \<Rightarrow> Inl e' | Inr a \<Rightarrow> Inl e))"
proof -
  from assms(1) have len: "length raw = 18"
    by (simp add: length_interactive_keys)
  from date_index [OF assms(2,3)] have i: "i = 3 \<or> i = 14" .
  from assms(4,5,6) have bad: "coerce_date (raw ! i) = Inl e"
    by (simp add: coerce_date_def)
  from assms(6) have "\<exists>v. e = ValueError v"
    by (auto simp: strptime_date_def split: option.splits if_splits)
  moreover have "get_formated_values raw = Inl e" if "i = 3"
    using bad that by (simp add: get_formated_values_18 [OF len])
  moreover have "get_formated_values raw =
      (case coerce_date (raw ! 3) of Inl e' \<Rightarrow> Inl e' | Inr a \<Rightarrow> Inl e)" if "i = 14"
    using bad that by (simp add: get_formated_values_18 [OF len] split: sum.splits)
  ultimately show ?thesis
    using i by (auto split: sum.splits)
qed

theorem get_formated_values_bad_date_witness:
  "length (sample_values[14 := PStr ''garbage'']) = length interactive_keys
   \<and> 14 < length interactive_keys
   \<and> input_type (interactive_keys ! 14) = Inr (AStr ''date'')
   \<and> sample_values[14 := PStr ''garbage''] ! 14 = PStr ''garbage''
   \<and> ''garbage'' \<noteq> []
   \<and> strptime_date (PStr ''garbage'') = Inl (ValueError (NoMatch ''garbage''))
   \<and> get_formated_values (sample_values[14 := PStr ''garbage'']) = Inl (ValueError (NoMatch ''garbage''))"
proof -
  have len: "length (sample_values[14 := PStr ''garbage'']) = length interactive_keys"
    by (simp add: length_sample length_interactive_keys)
  have i: "14 < length interactive_keys"
    by (simp add: length_interactive_keys)
  have t: "input_type (interactive_keys ! 14) = Inr (AStr ''date'')"
    by (simp add: interactive_keys_def input_types)
  have v: "sample_values[14 := PStr ''garbage''] ! 14 = PStr ''garbage''"
    by (simp add: length_sample)
  have ne: "''garbage'' \<noteq> []" by simp
  have d3: "coerce_date (sample_values ! 3) = Inr (PDate 2020 3 1)"
    by (simp add: sample_values_def coerce_date_2020_03_01)
  from get_formated_values_bad_date [OF len i t v ne strptime_garbage]
  have "get_formated_values (sample_values[14 := PStr ''garbage'']) = Inl (ValueError (NoMatch ''garbage''))"
    by (simp add: d3)
  with len i t v ne strptime_garbage show ?thesis by simp
qed

text \<open>
  The same unparseable text under \<^verbatim>\<open>current_date\<close> and under \<^verbatim>\<open>date_first_hospitalized\<close>:
  both calls end in the same error, which names neither key, and neither call returns the
  other fields.
\<close>

theorem get_formated_values_bad_date_counterexample:
  "get_formated_values (sample_values[14 := PStr ''garbage'']) = Inl (ValueError (NoMatch ''garbage''))
   \<and> get_formated_values (sample_values[3 := PStr ''garbage'']) = Inl (ValueError (NoMatch ''garbage''))"
proof -
  have len: "length (sample_values[14 := PStr ''garbage'']) = 18"
    "length (sample_values[3 := PStr ''garbage'']) = 18"
    by (simp_all add: length_sample)
  have "coerce_date (sample_values[14 := PStr ''garbage''] ! 3) = Inr (PDate 2020 3 1)"
    and "coerce_date (sample_values[14 := PStr ''garbage''] ! 14) = Inl (ValueError (NoMatch ''garbage''))"
    and "coerce_date (sample_values[3 := PStr ''garbage''] ! 3) = Inl (ValueError (NoMatch ''garbage''))"
    by (simp_all add: sample_values_def coerce_date_2020_03_01 coerce_date_garbage)
  then show ?thesis
    by (simp add: get_formated_values_18 [OF len(1)] get_formated_values_18 [OF len(2)])
qed

subsection \<open>Printing numbers and dates\<close>

lemma digit_table: "map (\<lambda>k. char_of (48 + k)) [0..<10::nat] = ''0123456789''"
  by code_simp

lemma digit_char_nth: "digit_char n = ''0123456789'' ! (n mod 10)"
proof -
  have "n mod 10 < length [0..<10::nat]" by simp
  then have "map (\<lambda>k. char_of (48 + k)) [0..<10::nat] ! (n mod 10) = char_of (48 + n mod 10)"
    by (simp only: nth_map) simp
  then show ?thesis
    by (simp only: digit_table digit_char_def)
qed

lemma str_ints:
  "str_int 1000000 = ''1000000''" "str_int 4 = ''4''" "str_int 14 = ''14''" "str_int 7 = ''7''"
  "str_int 9 = ''9''" "str_int 10 = ''10''" "str_int 60 = ''60''" "str_int 0 = ''0''"
  "str_int 1 = ''1''"
  by (simp_all add: str_int_def digit_char_nth)

lemma py_str_dates:
  "py_str R (PDate 2020 3 1) = ''2020-03-01''" "py_str R (PDate 2021 3 15) = ''2021-03-15''"
  "py_str R (PDate 2020 3 (Suc 0)) = ''2020-03-01''"
  by (simp_all add: py_str_def isoformat_def digit_char_nth)

lemma sample_floats:
  "float_repr sample_reprs 15 = ''15.0''" "float_repr sample_reprs (9 / 2) = ''4.5''"
  "float_repr sample_reprs 30 = ''30.0''" "float_repr sample_reprs 8 = ''8.0''"
  "float_repr sample_reprs (3 / 2) = ''1.5''" "float_repr sample_reprs 1 = ''1.0''"
  by (simp_all add: sample_reprs_def)

lemma py_str_plain:
  "py_str R (PInt i) = str_int i" "py_str R (PFloat x) = float_repr R x" "py_str R (PStr s) = s"
  "py_str R (PBool True) = ''True''" "py_str R (PBool False) = ''False''"
  by (simp_all add: py_str_def)

subsection \<open>The query string\<close>

lemma query_items_filter:
  "query_items R d =
     map (\<lambda>(key, val). key @ ''='' @ py_str R val)
       (filter (\<lambda>(key, val). key \<notin> {''model'', ''pars''} \<and> val \<noteq> PNone) d)"
  by (induction d) auto

lemma get_download_as_pdf_link_Inr:
  "get_formated_values raw = Inr d \<Longrightarrow>
     get_download_as_pdf_link url R raw = Inr [url @ ''?'' @ join ''&'' (query_items R d)]"
  by (simp add: get_download_as_pdf_link_def bind_err_def download_url_def)

lemma sample_items:
  "query_items sample_reprs sample_coerced =
     [''population=1000000'', ''market_share=15.0'', ''current_hospitalized=4'',
      ''date_first_hospitalized=2020-03-01'', ''doubling_time=4.5'',
      ''relative_contact_rate=30.0'', ''hospitalized_rate=8.0'', ''icu_rate=1.5'',
      ''ventilated_rate=1.0'', ''infectious_days=14'', ''hospitalized_los=7'', ''icu_los=9'',
      ''ventilated_los=10'', ''n_days=60'', ''current_date=2021-03-15'', ''show_tables=True'',
      ''show_tool_details=False'']"
  unfolding sample_coerced_def
  by (simp add: py_str_plain py_str_dates str_ints sample_floats)

lemma sample_query:
  "join ''&'' (query_items sample_reprs sample_coerced) =
     ''population=1000000&market_share=15.0&current_hospitalized=4&date_first_hospitalized=2020-03-01&doubling_time=4.5&relative_contact_rate=30.0&hospitalized_rate=8.0&icu_rate=1.5&ventilated_rate=1.0&infectious_days=14&hospitalized_los=7&icu_los=9&ventilated_los=10&n_days=60&current_date=2021-03-15&show_tables=True&show_tool_details=False''"
  unfolding sample_items by simp

text \<open>
  C7. For every map, the url that \<^verbatim>\<open>get_download_as_pdf_link\<close> builds is the base path, a
  question mark and the pairs \<^verbatim>\<open>key=value\<close> of the entries of the map joined by \<^verbatim>\<open>&\<close>, in the
  order of the map; the keys \<^verbatim>\<open>model\<close> and \<^verbatim>\<open>pars\<close> are left out, and so is every entry
  whose value is \<^verbatim>\<open>None\<close>. The map is the coerced one, whose order is that of the table.
  For the map \<^verbatim>\<open>{a: 1, b: None, c: "x"}\<close> and the base \<^verbatim>\<open>/download\<close> the url is
  \<^verbatim>\<open>/download?a=1&c=x\<close>, and it is the same when the map also has \<^verbatim>\<open>model\<close> and \<^verbatim>\<open>pars\<close>.
\<close>

theorem get_download_as_pdf_link_query:
  "download_url url R d =
      url @ ''?'' @ join ''&''
        (map (\<lambda>(key, val). key @ ''='' @ py_str R val)
          (filter (\<lambda>(key, val). key \<notin> {''model'', ''pars''} \<and> val \<noteq> PNone) d))
    \<and> (get_formated_values raw = Inr d \<longrightarrow>
          get_download_as_pdf_link url R raw = Inr [download_url url R d] \<and>
          (length raw = length interactive_keys \<longrightarrow> map fst d = interactive_keys))
    \<and> download_url ''/download'' R [(''a'', PInt 1), (''b'', PNone), (''c'', PStr ''x'')] =
        ''/download?a=1&c=x''
    \<and> download_url ''/download'' R
          [(''model'', PStr ''m''), (''a'', PInt 1), (''b'', PNone), (''pars'', PInt 1),
           (''c'', PStr ''x'')] =
        ''/download?a=1&c=x''"
proof -
  have "map fst d = interactive_keys"
    if "get_formated_values raw = Inr d" "length raw = length interactive_keys"
  proof -
    from that(2) have len: "length raw = 18"
      by (simp add: length_interactive_keys)
    from get_formated_values_Inr [OF len that(1)] obtain a b where "d = coerced_dict raw a b"
      by blast
    with len show ?thesis
      by (simp add: coerced_dict_keys)
  qed
  moreover have "get_download_as_pdf_link url R raw = Inr [download_url url R d]"
    if "get_formated_values raw = Inr d"
    using that by (simp add: get_download_as_pdf_link_def bind_err_def)
  moreover have "download_url ''/download'' R [(''a'', PInt 1), (''b'', PNone), (''c'', PStr ''x'')] =
        ''/download?a=1&c=x''"
    by (simp add: download_url_def py_str_def str_ints)
  moreover have "download_url ''/download'' R
          [(''model'', PStr ''m''), (''a'', PInt 1), (''b'', PNone), (''pars'', PInt 1),
           (''c'', PStr ''x'')] =
        ''/download?a=1&c=x''"
    by (simp add: download_url_def py_str_def str_ints)
  moreover have "download_url url R d =
      url @ ''?'' @ join ''&''
        (map (\<lambda>(key, val). key @ ''='' @ py_str R val)
          (filter (\<lambda>(key, val). key \<notin> {''model'', ''pars''} \<and> val \<noteq> PNone) d))"
    by (simp only: download_url_def query_items_filter)
  ultimately show ?thesis by blast
qed

theorem get_download_as_pdf_link_query_witness:
  "get_formated_values sample_values = Inr sample_coerced
   \<and> length sample_values = length interactive_keys
   \<and> map fst sample_coerced = interactive_keys
   \<and> get_download_as_pdf_link DOWNLOAD_AS_PDF_URL sample_reprs sample_values =
       Inr [''/download-as-pdf?population=1000000&market_share=15.0&current_hospitalized=4&date_first_hospitalized=2020-03-01&doubling_time=4.5&relative_contact_rate=30.0&hospitalized_rate=8.0&icu_rate=1.5&ventilated_rate=1.0&infectious_days=14&hospitalized_los=7&icu_los=9&ventilated_los=10&n_days=60&current_date=2021-03-15&show_tables=True&show_tool_details=False'']
   \<and> download_url ''/download'' sample_reprs
          [(''model'', PStr ''m''), (''a'', PInt 1), (''b'', PNone), (''pars'', PInt 1),
           (''c'', PStr ''x'')] =
        ''/download?a=1&c=x''"
proof -
  have len: "length sample_values = length interactive_keys"
    by (simp add: length_sample length_interactive_keys)
  note inst = get_download_as_pdf_link_query
    [of DOWNLOAD_AS_PDF_URL sample_reprs sample_coerced sample_values]
  from inst coerced_sample len
  have keys: "map fst sample_coerced = interactive_keys"
    and link: "get_download_as_pdf_link DOWNLOAD_AS_PDF_URL sample_reprs sample_values =
      Inr [download_url DOWNLOAD_AS_PDF_URL sample_reprs sample_coerced]"
    and transient: "download_url ''/download'' sample_reprs
          [(''model'', PStr ''m''), (''a'', PInt 1), (''b'', PNone), (''pars'', PInt 1),
           (''c'', PStr ''x'')] =
        ''/download?a=1&c=x''"
    by blast+
  from link have "get_download_as_pdf_link DOWNLOAD_AS_PDF_URL sample_reprs sample_values =
      Inr [DOWNLOAD_AS_PDF_URL @ ''?'' @ join ''&'' (query_items sample_reprs sample_coerced)]"
    by (simp only: download_url_def)
  then show ?thesis
    using len keys coerced_sample transient by (simp add: sample_query DOWNLOAD_AS_PDF_URL_def)
qed

lemma interactive_keys_not_transient:
  "key \<in> set interactive_keys \<Longrightarrow> key \<notin> {''model'', ''pars''}"
  by (auto simp: interactive_keys_def)

lemma query_items_member:
  assumes "(key, val) \<in> set d" and "key \<notin> {''model'', ''pars''}" and "val \<noteq> PNone"
  shows "key @ ''='' @ py_str R val \<in> set (query_items R d)"
  using assms by (induction d) auto

text \<open>
  C10. The link leaves an entry out only when its value is \<^verbatim>\<open>None\<close> itself. Falsy values
  that are not \<^verbatim>\<open>None\<close> are printed: a switch that the coercion turned into \<^verbatim>\<open>False\<close>
  appears as \<^verbatim>\<open>key=False\<close>, and a date whose value is the empty string appears as \<^verbatim>\<open>key=\<close>
  with nothing after the sign, for every coerced map with such values.
\<close>
theorem get_download_as_pdf_link_keeps_falsy:
  assumes "length raw = length interactive_keys" and "get_formated_values raw = Inr d"
  shows "get_download_as_pdf_link url R raw = Inr [url @ ''?'' @ join ''&'' (query_items R d)]
    \<and> (\<forall>key val. (key, val) \<in> set d \<and> val \<noteq> PNone \<longrightarrow>
          key @ ''='' @ py_str R val \<in> set (query_items R d))
    \<and> (\<forall>key. (key, PBool False) \<in> set d \<longrightarrow> key @ ''=False'' \<in> set (query_items R d))
    \<and> (\<forall>key. (key, PStr []) \<in> set d \<longrightarrow> key @ ''='' \<in> set (query_items R d))
    \<and> (\<forall>i < length interactive_keys.
          input_type (interactive_keys ! i) = Inr (AStr ''switch'') \<and>
          \<not> py_eq (raw ! i) (PList [PBool True]) \<longrightarrow>
          interactive_keys ! i @ ''=False'' \<in> set (query_items R d))
    \<and> (\<forall>i < length interactive_keys.
          input_type (interactive_keys ! i) = Inr (AStr ''date'') \<and> raw ! i = PStr [] \<longrightarrow>
          interactive_keys ! i @ ''='' \<in> set (query_items R d))"
proof -
  from assms(1) have len: "length raw = 18"
    by (simp add: length_interactive_keys)
  from get_formated_values_Inr [OF len assms(2)] obtain a b where
    a: "coerce_date (raw ! 3) = Inr a" and b: "coerce_date (raw ! 14) = Inr b"
    and d: "d = coerced_dict raw a b"
    by blast
  have keys: "map fst d = interactive_keys"
    using len by (simp add: d coerced_dict_keys)
  have member: "key @ ''='' @ py_str R val \<in> set (query_items R d)"
    if "(key, val) \<in> set d" "val \<noteq> PNone" for key val
  proof -
    from that(1) have "key \<in> set (map fst d)" by force
    then have "key \<notin> {''model'', ''pars''}"
      unfolding keys by (rule interactive_keys_not_transient)
    then show ?thesis
      using that by (intro query_items_member)
  qed
  have false: "key @ ''=False'' \<in> set (query_items R d)" if "(key, PBool False) \<in> set d" for key
    using member [OF that] by (simp add: py_str_def)
  have empty: "key @ ''='' \<in> set (query_items R d)" if "(key, PStr []) \<in> set d" for key
    using member [OF that] by (simp add: py_str_def)
  have switch: "interactive_keys ! i @ ''=False'' \<in> set (query_items R d)"
    if "i < length interactive_keys" "input_type (interactive_keys ! i) = Inr (AStr ''switch'')"
      "\<not> py_eq (raw ! i) (PList [PBool True])" for i
  proof -
    from switch_index [OF that(1,2)] len that(3)
    have "dict_get d (interactive_keys ! i) = Inr (PBool False)"
      by (auto simp: d coerced_dict_nth coerce_switch_def)
    then show ?thesis by (intro false dict_get_member)
  qed
  have date: "interactive_keys ! i @ ''='' \<in> set (query_items R d)"
    if "i < length interactive_keys" "input_type (interactive_keys ! i) = Inr (AStr ''date'')"
      "raw ! i = PStr []" for i
  proof -
    from that(3) have "coerce_date (raw ! i) = Inr (PStr [])"
      by (simp add: coerce_date_def)
    with date_index [OF that(1,2)] len a b
    have "dict_get d (interactive_keys ! i) = Inr (PStr [])"
      by (auto simp: d coerced_dict_nth)
    then show ?thesis by (intro empty dict_get_member)
  qed
  show ?thesis
    using get_download_as_pdf_link_Inr [OF assms(2), of url R] member false empty switch date
    by blast
qed

lemma second_items:
  "query_items sample_reprs second_coerced =
     [''population=1000000'', ''market_share=15.0'', ''current_hospitalized=4'',
      ''date_first_hospitalized=2020-03-01'', ''doubling_time=0'',
      ''relative_contact_rate=30.0'', ''hospitalized_rate=8.0'', ''icu_rate=1.5'',
      ''ventilated_rate=1.0'', ''infectious_days=14'', ''hospitalized_los=7'', ''icu_los=9'',
      ''ventilated_los=10'', ''n_days=60'', ''current_date='', ''show_tables=True'',
      ''show_tool_details=False'']"
  unfolding second_coerced_def
  by (simp add: py_str_plain py_str_dates str_ints sample_floats)

theorem get_download_as_pdf_link_keeps_falsy_witness:
  "length second_values = length interactive_keys
   \<and> get_formated_values second_values = Inr second_coerced
   \<and> 17 < length interactive_keys
   \<and> input_type (interactive_keys ! 17) = Inr (AStr ''switch'')
   \<and> \<not> py_eq (second_values ! 17) (PList [PBool True])
   \<and> 14 < length interactive_keys
   \<and> input_type (interactive_keys ! 14) = Inr (AStr ''date'')
   \<and> second_values ! 14 = PStr []
   \<and> (''show_tool_details'', PBool False) \<in> set second_coerced
   \<and> (''current_date'', PStr []) \<in> set second_coerced
   \<and> ''show_tool_details=False'' \<in> set (query_items sample_reprs second_coerced)
   \<and> ''current_date='' \<in> set (query_items sample_reprs second_coerced)
   \<and> get_download_as_pdf_link DOWNLOAD_AS_PDF_URL sample_reprs second_values =
       Inr [''/download-as-pdf?population=1000000&market_share=15.0&current_hospitalized=4&date_first_hospitalized=2020-03-01&doubling_time=0&relative_contact_rate=30.0&hospitalized_rate=8.0&icu_rate=1.5&ventilated_rate=1.0&infectious_days=14&hospitalized_los=7&icu_los=9&ventilated_los=10&n_days=60&current_date=&show_tables=True&show_tool_details=False'']"
proof -
  have len: "length second_values = length interactive_keys"
    by (simp add: length_second length_interactive_keys)
  have i: "17 < length interactive_keys" "14 < length interactive_keys"
    by (simp_all add: length_interactive_keys)
  have t: "input_type (interactive_keys ! 17) = Inr (AStr ''switch'')"
    "input_type (interactive_keys ! 14) = Inr (AStr ''date'')"
    by (simp_all add: interactive_keys_def input_types)
  have k: "interactive_keys ! 17 = ''show_tool_details''" "interactive_keys ! 14 = ''current_date''"
    by (simp_all add: interactive_keys_def)
  have v: "\<not> py_eq (second_values ! 17) (PList [PBool True])" "second_values ! 14 = PStr []"
    by (simp_all add: second_values_def sample_values_def)
  have m: "(''show_tool_details'', PBool False) \<in> set second_coerced"
    "(''current_date'', PStr []) \<in> set second_coerced"
    by (simp_all add: second_coerced_def)
  note inst = get_download_as_pdf_link_keeps_falsy [OF len coerced_second, of DOWNLOAD_AS_PDF_URL sample_reprs]
  from inst i(1) t(1) v(1) have "interactive_keys ! 17 @ ''=False'' \<in> set (query_items sample_reprs second_coerced)"
    by blast
  then have sw: "''show_tool_details=False'' \<in> set (query_items sample_reprs second_coerced)"
    by (simp only: k) simp
  from inst i(2) t(2) v(2) have "interactive_keys ! 14 @ ''='' \<in> set (query_items sample_reprs second_coerced)"
    by blast
  then have dt: "''current_date='' \<in> set (query_items sample_reprs second_coerced)"
    by (simp only: k) simp
  from inst have "get_download_as_pdf_link DOWNLOAD_AS_PDF_URL sample_reprs second_values =
      Inr [DOWNLOAD_AS_PDF_URL @ ''?'' @ join ''&'' (query_items sample_reprs second_coerced)]"
    by blast
  then have url: "get_download_as_pdf_link DOWNLOAD_AS_PDF_URL sample_reprs second_values =
       Inr [''/download-as-pdf?population=1000000&market_share=15.0&current_hospitalized=4&date_first_hospitalized=2020-03-01&doubling_time=0&relative_contact_rate=30.0&hospitalized_rate=8.0&icu_rate=1.5&ventilated_rate=1.0&infectious_days=14&hospitalized_los=7&icu_los=9&ventilated_los=10&n_days=60&current_date=&show_tables=True&show_tool_details=False'']"
    unfolding second_items by (simp add: DOWNLOAD_AS_PDF_URL_def)
  from len coerced_second i t v m sw dt url show ?thesis
    by (intro conjI)
qed






end
